theory Spec2Isabelle
  imports Complex_Main
begin

section \<open>The Piczak CNN (PiczakCNN.py) over a model of the TensorFlow 1.x primitives it calls\<close>

text \<open>
  The source file is a graph builder: every method of class \<open>Piczak\<close> calls TensorFlow
  or \<open>tensorflow.contrib.slim\<close> and does nothing else. The development therefore has two
  layers. Definitions named after a library function (\<open>tf_\<close>..., \<open>slim_\<close>...) record the
  documented behaviour of that library function; definitions named after a method of
  the class (\<open>build_predict_op\<close>, \<open>get_loss_op\<close>, \<open>save\<close>, \<open>load_piczak\<close>) follow the
  source line by line.
\<close>

subsection \<open>Errors\<close>

text \<open>
  One constructor per kind of exception the library raises on the paths the class uses.
  \<^item> \<open>NegativeDimension\<close>: the \<open>ValueError\<close> of shape inference ("Negative dimension size
    caused by subtracting k from n") when a VALID window is larger than its input;
  \<^item> \<open>UndefinedDimension\<close>: \<open>int()\<close> of an unknown dimension (a \<open>TypeError\<close>), or a layer
    whose last dimension is unknown (a \<open>ValueError\<close>);
  \<^item> \<open>RankError\<close>: an input of the wrong rank;
  \<^item> \<open>ReshapeError\<close>: a target shape that does not fit the number of elements;
  \<^item> \<open>VariableExists\<close>: \<open>get_variable\<close> on a name already in the graph, without reuse;
  \<^item> \<open>ShapeMismatch\<close>: labels and logits of different batch size;
  \<^item> \<open>InvalidArgument\<close>: a label outside the classes, on a CPU kernel; a restored tensor of
    the wrong shape;
  \<^item> \<open>NoVariablesToSave\<close>: \<open>tf.train.Saver\<close> built on an empty list (a \<open>ValueError\<close>);
  \<^item> \<open>NotFound\<close>: no checkpoint at the path, or a variable missing from it;
  \<^item> \<open>FailedPrecondition\<close>: reading a variable that has no value yet.
\<close>

datatype tf_error =
    NegativeDimension
  | UndefinedDimension
  | RankError
  | ReshapeError
  | VariableExists
  | ShapeMismatch
  | InvalidArgument
  | NoVariablesToSave
  | NotFound
  | FailedPrecondition

definition bind_err :: "tf_error + 'a \<Rightarrow> ('a \<Rightarrow> tf_error + 'b) \<Rightarrow> tf_error + 'b" where
  "bind_err m f = (case m of Inl e \<Rightarrow> Inl e | Inr x \<Rightarrow> f x)"

subsection \<open>The class and its constructor (lines 21 to 50)\<close>

text \<open>
  \<open>'v\<close> is the type of tensor values. Initialisers map a shape to a value, regularisers
  map a value to a penalty and may be absent (\<open>None\<close> in the source).
\<close>

record 'v piczak =
  model_name :: string
  num_classes :: nat
  W_init :: "nat list \<Rightarrow> 'v"
  b_init :: "nat list \<Rightarrow> 'v"
  W_reg :: "('v \<Rightarrow> real) option"
  b_reg :: "('v \<Rightarrow> real) option"

definition init_piczak ::
  "string \<Rightarrow> nat \<Rightarrow> (nat list \<Rightarrow> 'v) \<Rightarrow> (nat list \<Rightarrow> 'v) \<Rightarrow>
   ('v \<Rightarrow> real) option \<Rightarrow> ('v \<Rightarrow> real) option \<Rightarrow> 'v piczak" where
  "init_piczak name n wi bi wr br =
     \<lparr>model_name = name, num_classes = n, W_init = wi, b_init = bi, W_reg = wr, b_reg = br\<rparr>"

subsection \<open>The loss (lines 117 to 133)\<close>

text \<open>
  A float32 scalar is finite, an infinity or NaN. The arithmetic of the two library
  kernels is a parameter, as for the pipeline below: \<open>k_xent z y\<close> is whatever the
  cross-entropy kernel computes in float32 for a row of logits and a label inside the
  classes (it may overflow or be NaN), and \<open>k_mean xs\<close> whatever the mean kernel computes
  for a non-empty vector without NaN. Nothing is assumed about rounding or overflow.

  The device decides what the cross-entropy kernel does with a label outside \<open>[0, C)\<close>:
  the library documents an exception on CPU and a NaN loss row on GPU.
\<close>

datatype device = CPU | GPU

datatype tf_float = Fin real | PosInf | NegInf | NaN

record loss_kernels =
  k_xent :: "tf_float list \<Rightarrow> nat \<Rightarrow> tf_float"
  k_mean :: "tf_float list \<Rightarrow> tf_float"

text \<open>One row of \<open>tf.nn.sparse_softmax_cross_entropy_with_logits\<close>.\<close>

definition xent_row :: "loss_kernels \<Rightarrow> device \<Rightarrow> tf_float list \<Rightarrow> int \<Rightarrow> tf_error + tf_float" where
  "xent_row F dev z y =
     (if 0 \<le> y \<and> y < int (length z) then Inr (k_xent F z (nat y))
      else (case dev of CPU \<Rightarrow> Inl InvalidArgument | GPU \<Rightarrow> Inr NaN))"

fun xent_rows ::
  "loss_kernels \<Rightarrow> device \<Rightarrow> tf_float list list \<Rightarrow> int list \<Rightarrow> tf_error + tf_float list" where
  "xent_rows F dev (z # zs) (y # ys) =
     bind_err (xent_row F dev z y) (\<lambda>l.
     bind_err (xent_rows F dev zs ys) (\<lambda>ls. Inr (l # ls)))"
| "xent_rows F dev zs ys = Inr []"

text \<open>
  \<open>tf.nn.sparse_softmax_cross_entropy_with_logits(labels, logits)\<close> for logits of rank 2
  (a list of rows) and labels of rank 1: the batch sizes are compared first.
\<close>

definition tf_nn_sparse_softmax_cross_entropy_with_logits ::
  "loss_kernels \<Rightarrow> device \<Rightarrow> int list \<Rightarrow> tf_float list list \<Rightarrow> tf_error + tf_float list" where
  "tf_nn_sparse_softmax_cross_entropy_with_logits F dev labels logits =
     (if length labels \<noteq> length logits then Inl ShapeMismatch
      else xent_rows F dev logits labels)"

text \<open>
  \<open>tf.reduce_mean\<close> of a vector: NaN for the empty vector (0/0) and when a term is NaN
  (NaN propagates through the sum and the division); the kernel's value otherwise.
\<close>

definition tf_reduce_mean :: "loss_kernels \<Rightarrow> tf_float list \<Rightarrow> tf_float" where
  "tf_reduce_mean F xs = (if xs = [] \<or> NaN \<in> set xs then NaN else k_mean F xs)"

definition get_loss_op ::
  "loss_kernels \<Rightarrow> 'v piczak \<Rightarrow> device \<Rightarrow> tf_float list list \<Rightarrow> int list \<Rightarrow>
   tf_error + tf_float" where
  "get_loss_op F self dev prediction label_tensor =
     bind_err (tf_nn_sparse_softmax_cross_entropy_with_logits F dev label_tensor prediction)
       (\<lambda>loss. Inr (tf_reduce_mean F loss))"

subsection \<open>Static shapes\<close>

text \<open>
  A dimension of a static shape is known (\<open>Some n\<close>) or unknown (\<open>None\<close>, as the batch
  dimension of a placeholder usually is).
\<close>

type_synonym dim = "nat option"
type_synonym shape = "dim list"

text \<open>\<open>int(d)\<close> on a \<open>Dimension\<close>: a \<open>TypeError\<close> when the dimension is unknown.\<close>

definition dim_int :: "dim \<Rightarrow> tf_error + nat" where
  "dim_int d = (case d of None \<Rightarrow> Inl UndefinedDimension | Some n \<Rightarrow> Inr n)"

text \<open>\<open>Dimension.__mul__\<close>: unknown as soon as one factor is.\<close>

definition dim_mult :: "dim \<Rightarrow> dim \<Rightarrow> dim" where
  "dim_mult a b = (case a of None \<Rightarrow> None | Some m \<Rightarrow> (case b of None \<Rightarrow> None | Some n \<Rightarrow> Some (m * n)))"

text \<open>
  Shape inference of a VALID window of size \<open>k\<close> moved by stride \<open>s\<close> over a dimension:
  \<open>(n - k) div s + 1\<close> positions, and an error at graph construction when the input is
  shorter than the window.
\<close>

definition valid_out_dim :: "dim \<Rightarrow> nat \<Rightarrow> nat \<Rightarrow> tf_error + dim" where
  "valid_out_dim d k s =
     (case d of
        None \<Rightarrow> Inr None
      | Some n \<Rightarrow>
          if s = 0 then Inl InvalidArgument
          else if n < k then Inl NegativeDimension
          else Inr (Some ((n - k) div s + 1)))"

subsection \<open>Tensors, kernels, the graph\<close>

text \<open>
  The numeric kernels of the library are parameters: every theorem below holds for any
  choice of them, so nothing is assumed about floating-point arithmetic beyond each kernel
  being a function of its arguments. \<open>k_dropout keep noise x\<close> is \<open>tf.nn.dropout\<close> with its
  random tensor made an argument.
\<close>

record 'v kernels =
  k_conv2d :: "nat \<times> nat \<Rightarrow> 'v \<Rightarrow> 'v \<Rightarrow> 'v"
  k_bias_add :: "'v \<Rightarrow> 'v \<Rightarrow> 'v"
  k_relu :: "'v \<Rightarrow> 'v"
  k_dropout :: "real \<Rightarrow> 'v \<Rightarrow> 'v \<Rightarrow> 'v"
  k_max_pool :: "nat \<times> nat \<Rightarrow> nat \<times> nat \<Rightarrow> 'v \<Rightarrow> 'v"
  k_transpose :: "nat list \<Rightarrow> 'v \<Rightarrow> 'v"
  k_reshape :: "int list \<Rightarrow> 'v \<Rightarrow> 'v"
  k_matmul :: "'v \<Rightarrow> 'v \<Rightarrow> 'v"

text \<open>
  What a run of the session sees: the current value of each variable (by name), the fed
  values, and the random tensor drawn for each dropout operation (by scope name).
\<close>

record 'v env =
  variables :: "string \<rightharpoonup> 'v"
  feed_dict :: "string \<rightharpoonup> 'v"
  random_uniform :: "string \<Rightarrow> 'v"

text \<open>A symbolic tensor: its static shape and what running it returns.\<close>

record 'v tensor =
  get_shape :: shape
  run :: "'v env \<Rightarrow> tf_error + 'v"

record 'v variable =
  v_name :: string
  v_shape :: "nat list"
  v_init :: "nat list \<Rightarrow> 'v"
  v_reg :: "('v \<Rightarrow> real) option"

text \<open>
  The graph as far as the class touches it: the current variable scope and the collection
  \<open>GLOBAL_VARIABLES\<close> in creation order. Variable names are written without the output
  suffix \<open>:0\<close>. Scopes that set \<open>reuse\<close> are not modelled.
\<close>

record 'v graph =
  current_scope :: string
  global_variables :: "'v variable list"

definition scope_join :: "string \<Rightarrow> string \<Rightarrow> string" where
  "scope_join outer name = (if outer = [] then name else outer @ ''/'' @ name)"

text \<open>\<open>with tf.variable_scope(name):\<close> around a body; the scope is restored on exit.\<close>

definition variable_scope ::
  "string \<Rightarrow> 'v graph \<Rightarrow> ('v graph \<Rightarrow> tf_error + 'a \<times> 'v graph) \<Rightarrow> tf_error + 'a \<times> 'v graph" where
  "variable_scope name g body =
     bind_err (body (g\<lparr>current_scope := scope_join (current_scope g) name\<rparr>))
       (\<lambda>(x, g'). Inr (x, g'\<lparr>current_scope := current_scope g\<rparr>))"

definition read_variable :: "string \<Rightarrow> 'v env \<Rightarrow> tf_error + 'v" where
  "read_variable full e =
     (case variables e full of None \<Rightarrow> Inl FailedPrecondition | Some v \<Rightarrow> Inr v)"

definition get_variable ::
  "'v graph \<Rightarrow> string \<Rightarrow> nat list \<Rightarrow> (nat list \<Rightarrow> 'v) \<Rightarrow> ('v \<Rightarrow> real) option \<Rightarrow>
   tf_error + 'v tensor \<times> 'v graph" where
  "get_variable g name shp initializer regularizer =
     (let full = scope_join (current_scope g) name in
      if full \<in> set (map v_name (global_variables g)) then Inl VariableExists
      else Inr (\<lparr>get_shape = map Some shp, run = read_variable full\<rparr>,
                g\<lparr>global_variables := global_variables g @
                   [\<lparr>v_name = full, v_shape = shp, v_init = initializer, v_reg = regularizer\<rparr>]\<rparr>))"

subsection \<open>The library layers the pipeline calls\<close>

text \<open>
  \<open>slim.convolution\<close> on a rank-4 input with \<open>padding='VALID'\<close> and \<open>activation_fn=None\<close>
  (both calls of the source pass these): inside the layer's scope it creates \<open>weights\<close> of
  shape \<open>[kh, kw, in_channels, num_outputs]\<close> and \<open>biases\<close> of shape \<open>[num_outputs]\<close>, then
  adds the convolution and the bias addition. The layer builds its variables before it
  adds the convolution, whose shape inference raises when the window does not fit.
\<close>

definition slim_convolution ::
  "'v kernels \<Rightarrow> 'v graph \<Rightarrow> 'v tensor \<Rightarrow> nat \<Rightarrow> nat \<times> nat \<Rightarrow> nat \<times> nat \<Rightarrow>
   (nat list \<Rightarrow> 'v) \<Rightarrow> (nat list \<Rightarrow> 'v) \<Rightarrow> ('v \<Rightarrow> real) option \<Rightarrow> ('v \<Rightarrow> real) option \<Rightarrow>
   string \<Rightarrow> tf_error + 'v tensor \<times> 'v graph" where
  "slim_convolution K g inputs num_outputs kernel_size stride weights_initializer
       biases_initializer weights_regularizer biases_regularizer scope =
     (case get_shape inputs of
        [n, h, w, c] \<Rightarrow>
          variable_scope scope g (\<lambda>g.
            bind_err (dim_int c) (\<lambda>ci.
            bind_err (get_variable g ''weights''
                        [fst kernel_size, snd kernel_size, ci, num_outputs]
                        weights_initializer weights_regularizer) (\<lambda>(weights, g).
            bind_err (get_variable g ''biases'' [num_outputs]
                        biases_initializer biases_regularizer) (\<lambda>(biases, g).
            bind_err (valid_out_dim h (fst kernel_size) (fst stride)) (\<lambda>h'.
            bind_err (valid_out_dim w (snd kernel_size) (snd stride)) (\<lambda>w'.
            Inr (\<lparr>get_shape = [n, h', w', Some num_outputs],
                  run = (\<lambda>e.
                    bind_err (run inputs e) (\<lambda>x.
                    bind_err (run weights e) (\<lambda>wv.
                    bind_err (run biases e) (\<lambda>bv.
                    Inr (k_bias_add K (k_conv2d K stride x wv) bv)))))\<rparr>, g)))))))
      | _ \<Rightarrow> Inl RankError)"

definition tf_nn_relu :: "'v kernels \<Rightarrow> 'v tensor \<Rightarrow> 'v tensor" where
  "tf_nn_relu K features =
     \<lparr>get_shape = get_shape features,
      run = (\<lambda>e. bind_err (run features e) (\<lambda>x. Inr (k_relu K x)))\<rparr>"

definition tf_identity :: "'v tensor \<Rightarrow> 'v tensor" where
  "tf_identity t = \<lparr>get_shape = get_shape t, run = run t\<rparr>"

text \<open>
  \<open>slim.dropout\<close>: the layer chooses between \<open>tf.nn.dropout\<close> and \<open>tf.identity\<close> on
  \<open>is_training\<close>. It creates no variable; the scope only names the operation.
\<close>

definition slim_dropout ::
  "'v kernels \<Rightarrow> 'v graph \<Rightarrow> 'v tensor \<Rightarrow> real \<Rightarrow> bool \<Rightarrow> string \<Rightarrow> 'v tensor" where
  "slim_dropout K g inputs keep_prob is_training scope =
     (if is_training then
        \<lparr>get_shape = get_shape inputs,
         run = (\<lambda>e. bind_err (run inputs e) (\<lambda>x.
                  Inr (k_dropout K keep_prob
                         (random_uniform e (scope_join (current_scope g) scope)) x)))\<rparr>
      else tf_identity inputs)"

text \<open>\<open>slim.pool\<close> on a rank-4 input with pooling type \<open>'MAX'\<close> and \<open>padding='VALID'\<close>.\<close>

definition slim_pool ::
  "'v kernels \<Rightarrow> 'v tensor \<Rightarrow> nat \<times> nat \<Rightarrow> nat \<times> nat \<Rightarrow> tf_error + 'v tensor" where
  "slim_pool K inputs kernel_size stride =
     (case get_shape inputs of
        [n, h, w, c] \<Rightarrow>
          bind_err (valid_out_dim h (fst kernel_size) (fst stride)) (\<lambda>h'.
          bind_err (valid_out_dim w (snd kernel_size) (snd stride)) (\<lambda>w'.
          Inr \<lparr>get_shape = [n, h', w', c],
               run = (\<lambda>e. bind_err (run inputs e) (\<lambda>x.
                        Inr (k_max_pool K kernel_size stride x)))\<rparr>))
      | _ \<Rightarrow> Inl RankError)"

definition tf_transpose :: "'v kernels \<Rightarrow> 'v tensor \<Rightarrow> nat list \<Rightarrow> tf_error + 'v tensor" where
  "tf_transpose K a perm =
     (if sort perm = [0..<length (get_shape a)] then
        Inr \<lparr>get_shape = map (\<lambda>i. get_shape a ! i) perm,
             run = (\<lambda>e. bind_err (run a e) (\<lambda>x. Inr (k_transpose K perm x)))\<rparr>
      else Inl InvalidArgument)"

text \<open>
  Shape inference of \<open>tf.reshape\<close>. At most one entry of the target is \<open>-1\<close>; it is
  inferred from the number of elements when every input dimension is known, and unknown
  otherwise. Inference fails when the known entries multiply to zero or do not divide
  the number of elements.
\<close>

definition reshape_shape :: "shape \<Rightarrow> int list \<Rightarrow> tf_error + shape" where
  "reshape_shape shp target =
     (let known = prod_list (map nat (filter (\<lambda>d. d \<noteq> - 1) target));
          unknowns = length (filter (\<lambda>d. d = - 1) target)
      in if list_ex (\<lambda>d. d < - 1) target \<or> 1 < unknowns then Inl ReshapeError
         else (case those shp of
                 None \<Rightarrow> Inr (map (\<lambda>d. if d = - 1 then None else Some (nat d)) target)
               | Some ns \<Rightarrow>
                   if unknowns = 0 then
                     (if prod_list ns = known then Inr (map (\<lambda>d. Some (nat d)) target)
                      else Inl ReshapeError)
                   else if known = 0 \<or> prod_list ns mod known \<noteq> 0 then Inl ReshapeError
                   else Inr (map (\<lambda>d. if d = - 1 then Some (prod_list ns div known)
                                        else Some (nat d)) target)))"

definition tf_reshape :: "'v kernels \<Rightarrow> 'v tensor \<Rightarrow> int list \<Rightarrow> tf_error + 'v tensor" where
  "tf_reshape K t target =
     bind_err (reshape_shape (get_shape t) target) (\<lambda>shp.
       Inr \<lparr>get_shape = shp,
            run = (\<lambda>e. bind_err (run t e) (\<lambda>x. Inr (k_reshape K target x)))\<rparr>)"

text \<open>
  \<open>slim.fully_connected\<close> with \<open>activation_fn=None\<close>: the last dimension of the input must
  be known; inside the layer's scope it creates \<open>weights\<close> of shape \<open>[n_in, num_outputs]\<close>
  and \<open>biases\<close> of shape \<open>[num_outputs]\<close>.
\<close>

definition slim_fully_connected ::
  "'v kernels \<Rightarrow> 'v graph \<Rightarrow> 'v tensor \<Rightarrow> nat \<Rightarrow>
   (nat list \<Rightarrow> 'v) \<Rightarrow> (nat list \<Rightarrow> 'v) \<Rightarrow> ('v \<Rightarrow> real) option \<Rightarrow> ('v \<Rightarrow> real) option \<Rightarrow>
   string \<Rightarrow> tf_error + 'v tensor \<times> 'v graph" where
  "slim_fully_connected K g inputs num_outputs weights_initializer biases_initializer
       weights_regularizer biases_regularizer scope =
     (if length (get_shape inputs) < 2 then Inl RankError
      else
        variable_scope scope g (\<lambda>g.
          bind_err (dim_int (last (get_shape inputs))) (\<lambda>n_in.
          bind_err (get_variable g ''weights'' [n_in, num_outputs]
                      weights_initializer weights_regularizer) (\<lambda>(weights, g).
          bind_err (get_variable g ''biases'' [num_outputs]
                      biases_initializer biases_regularizer) (\<lambda>(biases, g).
          Inr (\<lparr>get_shape = butlast (get_shape inputs) @ [Some num_outputs],
                run = (\<lambda>e.
                  bind_err (run inputs e) (\<lambda>x.
                  bind_err (run weights e) (\<lambda>wv.
                  bind_err (run biases e) (\<lambda>bv.
                  Inr (k_bias_add K (k_matmul K x wv) bv)))))\<rparr>, g))))))"

subsection \<open>The forward pipeline (\<open>build_predict_op\<close>, lines 52 to 115)\<close>

text \<open>
  The body of the method in the five blocks its comments mark. The \<open>print\<close> calls of the
  reshaping block write to the console and are left out.
\<close>

text \<open>Lines 56 to 64: first convolutional block with dropout and with max pooling.\<close>

definition first_convolutional_block ::
  "'v kernels \<Rightarrow> 'v piczak \<Rightarrow> 'v graph \<Rightarrow> 'v tensor \<Rightarrow> bool \<Rightarrow> tf_error + 'v tensor \<times> 'v graph" where
  "first_convolutional_block K self g predict_op is_training =
     bind_err (slim_convolution K g predict_op 80 (57, 6) (1, 1)
                 (W_init self) (b_init self) (W_reg self) (b_reg self) ''cnn_1'')
       (\<lambda>(predict_op, g).
     let predict_op = tf_nn_relu K predict_op;
         predict_op = slim_dropout K g predict_op (1 / 2) is_training ''cnn_1''
     in bind_err (slim_pool K predict_op (4, 3) (1, 3)) (\<lambda>predict_op.
     Inr (predict_op, g)))"

text \<open>Lines 66 to 73: second convolutional block without dropout and with max pooling.\<close>

definition second_convolutional_block ::
  "'v kernels \<Rightarrow> 'v piczak \<Rightarrow> 'v graph \<Rightarrow> 'v tensor \<Rightarrow> tf_error + 'v tensor \<times> 'v graph" where
  "second_convolutional_block K self g predict_op =
     bind_err (slim_convolution K g predict_op 80 (1, 3) (1, 1)
                 (W_init self) (b_init self) (W_reg self) (b_reg self) ''cnn_2'')
       (\<lambda>(predict_op, g).
     let predict_op = tf_nn_relu K predict_op
     in bind_err (slim_pool K predict_op (1, 3) (1, 3)) (\<lambda>predict_op.
     Inr (predict_op, g)))"

text \<open>Lines 75 to 92: reshaping before the dense layers.\<close>

definition reshaping :: "'v kernels \<Rightarrow> 'v tensor \<Rightarrow> tf_error + 'v tensor" where
  "reshaping K predict_op =
     bind_err (tf_transpose K predict_op [0, 2, 1, 3]) (\<lambda>predict_op.
     let shx = get_shape predict_op in
     bind_err (dim_int (shx ! 1)) (\<lambda>d1.
     bind_err (dim_int (dim_mult (shx ! 2) (shx ! 3))) (\<lambda>d23.
     bind_err (tf_reshape K predict_op [- 1, int d1, int d23]) (\<lambda>predict_op.
     let shx = get_shape predict_op in
     bind_err (dim_int (shx ! 1)) (\<lambda>d1.
     bind_err (dim_int (shx ! 2)) (\<lambda>d2.
     tf_reshape K predict_op [- 1, int d1 * int d2]))))))"

text \<open>Lines 94 to 107: dense part of the model with dropout.\<close>

definition dense_part ::
  "'v kernels \<Rightarrow> 'v piczak \<Rightarrow> 'v graph \<Rightarrow> 'v tensor \<Rightarrow> bool \<Rightarrow> tf_error + 'v tensor \<times> 'v graph" where
  "dense_part K self g predict_op is_training =
     bind_err (slim_fully_connected K g predict_op 5000
                 (W_init self) (b_init self) (W_reg self) (b_reg self) ''dense_1'')
       (\<lambda>(predict_op, g).
     let predict_op = tf_nn_relu K predict_op;
         predict_op = slim_dropout K g predict_op (1 / 2) is_training ''dense_1''
     in bind_err (slim_fully_connected K g predict_op 5000
                    (W_init self) (b_init self) (W_reg self) (b_reg self) ''dense_2'')
       (\<lambda>(predict_op, g).
     let predict_op = tf_nn_relu K predict_op;
         predict_op = slim_dropout K g predict_op (1 / 2) is_training ''dense_2''
     in Inr (predict_op, g)))"

text \<open>Lines 109 to 113: linear output layer.\<close>

definition linear_output_layer ::
  "'v kernels \<Rightarrow> 'v piczak \<Rightarrow> 'v graph \<Rightarrow> 'v tensor \<Rightarrow> tf_error + 'v tensor \<times> 'v graph" where
  "linear_output_layer K self g predict_op =
     slim_fully_connected K g predict_op (num_classes self)
       (W_init self) (b_init self) (W_reg self) (b_reg self) ''output''"

text \<open>The tensor held by \<open>predict_op\<close> at line 92, after the second reshape.\<close>

definition flattened ::
  "'v kernels \<Rightarrow> 'v piczak \<Rightarrow> 'v graph \<Rightarrow> 'v tensor \<Rightarrow> bool \<Rightarrow> tf_error + 'v tensor \<times> 'v graph" where
  "flattened K self g input_tensor is_training =
     variable_scope ''piczak'' g (\<lambda>g.
       bind_err (first_convolutional_block K self g input_tensor is_training) (\<lambda>(predict_op, g).
       bind_err (second_convolutional_block K self g predict_op) (\<lambda>(predict_op, g).
       bind_err (reshaping K predict_op) (\<lambda>predict_op.
       Inr (predict_op, g)))))"

definition build_predict_op ::
  "'v kernels \<Rightarrow> 'v piczak \<Rightarrow> 'v graph \<Rightarrow> 'v tensor \<Rightarrow> bool \<Rightarrow> tf_error + 'v tensor \<times> 'v graph" where
  "build_predict_op K self g input_tensor is_training =
     variable_scope ''piczak'' g (\<lambda>g.
       bind_err (first_convolutional_block K self g input_tensor is_training) (\<lambda>(predict_op, g).
       bind_err (second_convolutional_block K self g predict_op) (\<lambda>(predict_op, g).
       bind_err (reshaping K predict_op) (\<lambda>predict_op.
       bind_err (dense_part K self g predict_op is_training) (\<lambda>(predict_op, g).
       linear_output_layer K self g predict_op)))))"

text \<open>The static shape of a built tensor, or the error of the build.\<close>

definition built_shape :: "tf_error + 'v tensor \<times> 'v graph \<Rightarrow> tf_error + shape" where
  "built_shape r = (case r of Inl e \<Rightarrow> Inl e | Inr (t, g) \<Rightarrow> Inr (get_shape t))"

text \<open>
  The names of the two variables a layer creates under scope \<open>l\<close> inside scope \<open>p\<close>, and
  the names of the variables of the five layers, in creation order.
\<close>

definition layer_names :: "string \<Rightarrow> string \<Rightarrow> string list" where
  "layer_names p l = [scope_join (scope_join p l) ''weights'', scope_join (scope_join p l) ''biases'']"

definition layer_variable_names :: "string \<Rightarrow> string list" where
  "layer_variable_names p =
     layer_names p ''cnn_1'' @ layer_names p ''cnn_2'' @ layer_names p ''dense_1'' @
     layer_names p ''dense_2'' @ layer_names p ''output''"

text \<open>
  Two bookkeeping predicates for the proofs: a build step that leaves the scope as it was
  and appends variables of the given fresh, distinct names; two runs that see the same
  value, or the same lack of one, for each listed variable.
\<close>

definition adds_variables :: "'v graph \<Rightarrow> string list \<Rightarrow> 'v graph \<Rightarrow> bool" where
  "adds_variables g ns g' =
     (current_scope g' = current_scope g \<and>
      map v_name (global_variables g') = map v_name (global_variables g) @ ns \<and>
      distinct ns \<and> set ns \<inter> set (map v_name (global_variables g)) = {})"

definition agree_on :: "string list \<Rightarrow> 'v env \<Rightarrow> 'v env \<Rightarrow> bool" where
  "agree_on ns e1 e2 = list_all (\<lambda>n. variables e1 n = variables e2 n) ns"

subsection \<open>The parameter store (\<open>save\<close> and \<open>load_piczak\<close>, lines 135 to 159)\<close>

text \<open>
  \<open>tf.get_collection(key, scope)\<close> keeps the items whose name the regular expression
  \<open>scope\<close> matches at its start (\<open>re.match\<close>). The only pattern the source passes is the
  literal \<open>"model"\<close>, which has no metacharacter: matching it is having it as a prefix.
\<close>

definition re_match :: "string \<Rightarrow> string \<Rightarrow> bool" where
  "re_match pattern name = (take (length pattern) name = pattern)"

definition tf_get_collection :: "'v graph \<Rightarrow> string \<Rightarrow> 'v variable list" where
  "tf_get_collection g scope = filter (\<lambda>v. re_match scope (v_name v)) (global_variables g)"

text \<open>
  A session holds the current value of each initialised variable. A checkpoint lists
  name, shape and value of every saved variable; the file system maps a path to the
  checkpoint written there.
\<close>

type_synonym 'v session = "string \<rightharpoonup> 'v"
type_synonym 'v checkpoint = "(string \<times> nat list \<times> 'v) list"
type_synonym 'v filesystem = "string \<rightharpoonup> 'v checkpoint"

text \<open>\<open>tf.train.Saver(var_list)\<close> raises \<open>ValueError\<close> ("No variables to save") on an empty list.\<close>

definition tf_train_Saver :: "'v variable list \<Rightarrow> tf_error + 'v variable list" where
  "tf_train_Saver var_list = (if var_list = [] then Inl NoVariablesToSave else Inr var_list)"

fun saver_entries :: "'v variable list \<Rightarrow> 'v session \<Rightarrow> tf_error + 'v checkpoint" where
  "saver_entries [] sess = Inr []"
| "saver_entries (v # vs) sess =
     (case sess (v_name v) of
        None \<Rightarrow> Inl FailedPrecondition
      | Some x \<Rightarrow> bind_err (saver_entries vs sess) (\<lambda>es. Inr ((v_name v, v_shape v, x) # es)))"

text \<open>\<open>saver.save(sess, path)\<close>: reads every variable of the saver and writes the checkpoint.\<close>

definition saver_save ::
  "'v variable list \<Rightarrow> 'v session \<Rightarrow> string \<Rightarrow> 'v filesystem \<Rightarrow> tf_error + 'v filesystem" where
  "saver_save saver sess path fs =
     bind_err (saver_entries saver sess) (\<lambda>es. Inr (fs(path \<mapsto> es)))"

fun restore_all :: "'v variable list \<Rightarrow> 'v checkpoint \<Rightarrow> 'v session \<Rightarrow> tf_error + 'v session" where
  "restore_all [] ckpt sess = Inr sess"
| "restore_all (v # vs) ckpt sess =
     (case map_of ckpt (v_name v) of
        None \<Rightarrow> Inl NotFound
      | Some (shp, x) \<Rightarrow>
          if shp \<noteq> v_shape v then Inl InvalidArgument
          else restore_all vs ckpt (sess(v_name v \<mapsto> x)))"

text \<open>
  \<open>saver.restore(sess, path)\<close>: assigns to every variable of the saver the value stored
  under its name; it fails when there is no checkpoint, when a name is missing from it and
  when a stored shape differs.
\<close>

definition saver_restore ::
  "'v variable list \<Rightarrow> 'v session \<Rightarrow> string \<Rightarrow> 'v filesystem \<Rightarrow> tf_error + 'v session" where
  "saver_restore saver sess path fs =
     (case fs path of None \<Rightarrow> Inl NotFound | Some ckpt \<Rightarrow> restore_all saver ckpt sess)"

text \<open>
  The two methods. The default graph, which they read through \<open>tf.get_collection\<close>, and
  the file system, which they write and read, are made arguments.
\<close>

definition save ::
  "'v piczak \<Rightarrow> 'v graph \<Rightarrow> string \<Rightarrow> 'v session \<Rightarrow> 'v filesystem \<Rightarrow> tf_error + 'v filesystem" where
  "save self g path sess fs =
     (let vars = tf_get_collection g ''model'' in
      bind_err (tf_train_Saver vars) (\<lambda>saver.
      saver_save saver sess path fs))"

definition load_piczak ::
  "'v piczak \<Rightarrow> 'v graph \<Rightarrow> string \<Rightarrow> 'v session \<Rightarrow> 'v filesystem \<Rightarrow> tf_error + 'v session" where
  "load_piczak self g path sess fs =
     (let vars = tf_get_collection g ''model'' in
      bind_err (tf_train_Saver vars) (\<lambda>saver.
      saver_restore saver sess path fs))"

subsection \<open>Concrete inputs\<close>

text \<open>
  Kernels on integers standing for tensors, a placeholder that returns what is fed under
  its name, the empty graph, a graph inside an enclosing scope \<open>model\<close>, an instance with
  the default number of classes, and two sessions that give every variable a value.
\<close>

definition int_kernels :: "int kernels" where
  "int_kernels =
     \<lparr>k_conv2d = (\<lambda>s x w. x * w), k_bias_add = (\<lambda>x b. x + b), k_relu = (\<lambda>x. max x 0),
      k_dropout = (\<lambda>p n x. x * n), k_max_pool = (\<lambda>k s x. x), k_transpose = (\<lambda>p x. x),
      k_reshape = (\<lambda>t x. x), k_matmul = (\<lambda>x w. x * w)\<rparr>"

text \<open>Loss kernels for the concrete instances: they return 0 wherever they are called.\<close>

definition zero_loss_kernels :: loss_kernels where
  "zero_loss_kernels = \<lparr>k_xent = (\<lambda>z y. Fin 0), k_mean = (\<lambda>xs. Fin 0)\<rparr>"

definition placeholder :: "string \<Rightarrow> shape \<Rightarrow> 'v tensor" where
  "placeholder name shp =
     \<lparr>get_shape = shp,
      run = (\<lambda>e. case feed_dict e name of None \<Rightarrow> Inl InvalidArgument | Some v \<Rightarrow> Inr v)\<rparr>"

definition empty_graph :: "'v graph" where
  "empty_graph = \<lparr>current_scope = [], global_variables = []\<rparr>"

definition model_scope_graph :: "'v graph" where
  "model_scope_graph = \<lparr>current_scope = ''model'', global_variables = []\<rparr>"

definition default_piczak :: "int piczak" where
  "default_piczak = init_piczak ''piczak'' 50 (\<lambda>s. 1) (\<lambda>s. 0) None None"

definition trained_session :: "int session" where
  "trained_session = (\<lambda>n. Some 3)"

definition fresh_session :: "int session" where
  "fresh_session = (\<lambda>n. Some 1)"

text \<open>
  A graph inside the scope \<open>model\<close> that already holds a variable \<open>model_step\<close>, created
  by the caller.
\<close>

definition graph_with_step :: "int graph" where
  "graph_with_step =
     \<lparr>current_scope = ''model'',
      global_variables = [\<lparr>v_name = ''model_step'', v_shape = [], v_init = (\<lambda>s. 0), v_reg = None\<rparr>]\<rparr>"

text \<open>
  Two callers: one builds the pipeline and saves; one builds, saves, and loads into another
  session. \<open>saved_names\<close> lists the names in the checkpoint written at a path.
\<close>

definition build_then_save ::
  "'v kernels \<Rightarrow> 'v piczak \<Rightarrow> 'v graph \<Rightarrow> 'v tensor \<Rightarrow> bool \<Rightarrow> string \<Rightarrow> 'v session \<Rightarrow>
   'v filesystem \<Rightarrow> tf_error + 'v filesystem" where
  "build_then_save K self g input_tensor is_training path sess fs =
     bind_err (build_predict_op K self g input_tensor is_training) (\<lambda>(predict_op, g').
     save self g' path sess fs)"

definition saved_names :: "tf_error + 'v filesystem \<Rightarrow> string \<Rightarrow> tf_error + string list" where
  "saved_names r path =
     (case r of
        Inl e \<Rightarrow> Inl e
      | Inr fs \<Rightarrow> (case fs path of None \<Rightarrow> Inl NotFound | Some ckpt \<Rightarrow> Inr (map fst ckpt)))"

definition build_save_load ::
  "'v kernels \<Rightarrow> 'v piczak \<Rightarrow> 'v graph \<Rightarrow> 'v tensor \<Rightarrow> string \<Rightarrow> 'v session \<Rightarrow> 'v session \<Rightarrow>
   'v filesystem \<Rightarrow> tf_error + 'v session" where
  "build_save_load K self g input_tensor path sess fresh fs =
     bind_err (build_predict_op K self g input_tensor False) (\<lambda>(predict_op, g').
     bind_err (save self g' path sess fs) (\<lambda>fs'.
     load_piczak self g' path fresh fs'))"

section \<open>Properties of the loss\<close>

lemma xent_rows_CPU_invalid:
  "length zs = length ys \<Longrightarrow> \<exists>(z, y)\<in>set (zip zs ys). \<not> (0 \<le> y \<and> y < int (length z)) \<Longrightarrow>
   xent_rows F CPU zs ys = Inl InvalidArgument"
proof (induction zs ys rule: list_induct2)
  case Nil
  then show ?case by simp
next
  case (Cons z zs y ys)
  show ?case
  proof (cases "0 \<le> y \<and> y < int (length z)")
    case True
    with Cons.prems have "\<exists>(z, y)\<in>set (zip zs ys). \<not> (0 \<le> y \<and> y < int (length z))"
      by auto
    then have "xent_rows F CPU zs ys = Inl InvalidArgument" by (rule Cons.IH)
    with True show ?thesis by (simp add: xent_row_def bind_err_def)
  next
    case False
    then show ?thesis by (auto simp add: xent_row_def bind_err_def)
  qed
qed

lemma xent_rows_GPU_total: "\<exists>ls. xent_rows F GPU zs ys = Inr ls"
  by (induction F GPU zs ys rule: xent_rows.induct) (auto simp add: xent_row_def bind_err_def)

lemma xent_rows_GPU_invalid:
  "length zs = length ys \<Longrightarrow> \<exists>(z, y)\<in>set (zip zs ys). \<not> (0 \<le> y \<and> y < int (length z)) \<Longrightarrow>
   \<exists>ls. xent_rows F GPU zs ys = Inr ls \<and> NaN \<in> set ls"
proof (induction zs ys rule: list_induct2)
  case Nil
  then show ?case by simp
next
  case (Cons z zs y ys)
  show ?case
  proof (cases "0 \<le> y \<and> y < int (length z)")
    case True
    with Cons.prems have "\<exists>(z, y)\<in>set (zip zs ys). \<not> (0 \<le> y \<and> y < int (length z))"
      by auto
    then obtain ls where "xent_rows F GPU zs ys = Inr ls" "NaN \<in> set ls"
      using Cons.IH by blast
    with True show ?thesis by (simp add: xent_row_def bind_err_def)
  next
    case False
    obtain ls where "xent_rows F GPU zs ys = Inr ls"
      using xent_rows_GPU_total by blast
    with False show ?thesis by (auto simp add: xent_row_def bind_err_def)
  qed
qed

text \<open>
  C8, as amended. \<open>get_loss_op\<close> fails with a shape mismatch whenever the batch sizes of
  logits and labels differ. When they agree and a label lies outside \<open>[0, C)\<close>, the
  method checks nothing itself and the outcome is the kernel's: an invalid-argument
  error on CPU, a NaN loss and no error on GPU.
\<close>

theorem get_loss_op_failures:
  "(length label_tensor \<noteq> length prediction \<longrightarrow>
      get_loss_op F self dev prediction label_tensor = Inl ShapeMismatch) \<and>
   (length label_tensor = length prediction \<and> (\<forall>z\<in>set prediction. length z = C) \<and>
    (\<exists>y\<in>set label_tensor. y < 0 \<or> int C \<le> y) \<longrightarrow>
      get_loss_op F self CPU prediction label_tensor = Inl InvalidArgument \<and>
      get_loss_op F self GPU prediction label_tensor = Inr NaN)"
proof (intro conjI impI)
  assume "length label_tensor \<noteq> length prediction"
  then show "get_loss_op F self dev prediction label_tensor = Inl ShapeMismatch"
    by (simp add: get_loss_op_def tf_nn_sparse_softmax_cross_entropy_with_logits_def bind_err_def)
next
  assume a: "length label_tensor = length prediction \<and> (\<forall>z\<in>set prediction. length z = C) \<and>
    (\<exists>y\<in>set label_tensor. y < 0 \<or> int C \<le> y)"
  then obtain y where y: "y \<in> set label_tensor" "y < 0 \<or> int C \<le> y" by blast
  from y(1) obtain i where i: "i < length label_tensor" "label_tensor ! i = y"
    by (auto simp add: in_set_conv_nth)
  with a have mem: "(prediction ! i, y) \<in> set (zip prediction label_tensor)"
    by (auto simp add: in_set_zip)
  have "length (prediction ! i) = C" using a i by simp
  with y(2) have "\<not> (0 \<le> y \<and> y < int (length (prediction ! i)))" by auto
  with mem have bad: "\<exists>(z, y)\<in>set (zip prediction label_tensor). \<not> (0 \<le> y \<and> y < int (length z))"
    by (intro bexI [of _ "(prediction ! i, y)"]) simp_all
  from a have len: "length prediction = length label_tensor" by simp
  show "get_loss_op F self CPU prediction label_tensor = Inl InvalidArgument"
    using xent_rows_CPU_invalid [OF len bad, of F] len
    by (simp add: get_loss_op_def tf_nn_sparse_softmax_cross_entropy_with_logits_def bind_err_def)
  show "get_loss_op F self GPU prediction label_tensor = Inr NaN"
    using xent_rows_GPU_invalid [OF len bad, of F] len
    by (auto simp add: get_loss_op_def tf_nn_sparse_softmax_cross_entropy_with_logits_def
        bind_err_def tf_reduce_mean_def)
qed

theorem get_loss_op_failures_witness:
  "get_loss_op zero_loss_kernels default_piczak CPU [[Fin 0, Fin 0]] [0, 1] = Inl ShapeMismatch \<and>
   get_loss_op zero_loss_kernels default_piczak CPU [[Fin 0, Fin 0], [Fin 1, Fin 0]] [0, - 1] =
     Inl InvalidArgument \<and>
   get_loss_op zero_loss_kernels default_piczak GPU [[Fin 0, Fin 0], [Fin 1, Fin 0]] [0, - 1] =
     Inr NaN"
  using get_loss_op_failures [where label_tensor = "[0, 1]" and prediction = "[[Fin 0, Fin 0]]"
      and self = default_piczak and dev = CPU and C = 2 and F = zero_loss_kernels]
    get_loss_op_failures [where label_tensor = "[0, - 1]"
      and prediction = "[[Fin 0, Fin 0], [Fin 1, Fin 0]]"
      and self = default_piczak and dev = CPU and C = 2 and F = zero_loss_kernels]
  by simp

theorem get_loss_op_label_out_of_range_counterexample:
  "get_loss_op zero_loss_kernels default_piczak GPU [[Fin 0, Fin 0]] [2] = Inr NaN \<and>
   get_loss_op zero_loss_kernels default_piczak CPU [[Fin 0, Fin 0]] [2] = Inl InvalidArgument"
  by (simp add: get_loss_op_def tf_nn_sparse_softmax_cross_entropy_with_logits_def bind_err_def
      xent_row_def tf_reduce_mean_def)

text \<open>
  C10. The loss built by \<open>get_loss_op\<close> depends on the prediction and the labels only: two
  instances of the class, whatever their fields, give the same loss on the same arguments.
\<close>

theorem get_loss_op_independent_of_instance:
  "get_loss_op F (self1 :: 'a piczak) dev prediction label_tensor =
   get_loss_op F (self2 :: 'b piczak) dev prediction label_tensor"
  by (simp add: get_loss_op_def)

section \<open>Properties of the graph builders\<close>

lemma bind_err_Inl [simp]: "bind_err (Inl e) f = Inl e"
  by (simp add: bind_err_def)

lemma bind_err_Inr [simp]: "bind_err (Inr x) f = f x"
  by (simp add: bind_err_def)

lemma bind_err_eq_Inr: "bind_err m f = Inr y \<longleftrightarrow> (\<exists>x. m = Inr x \<and> f x = Inr y)"
  by (cases m) simp_all

lemma bind_err_assoc: "bind_err (bind_err m f) h = bind_err m (\<lambda>x. bind_err (f x) h)"
  by (cases m) simp_all

lemma variable_scope_eq_Inr:
  "variable_scope name g body = Inr (x, g') \<longleftrightarrow>
   (\<exists>g''. body (g\<lparr>current_scope := scope_join (current_scope g) name\<rparr>) = Inr (x, g'') \<and>
          g' = g''\<lparr>current_scope := current_scope g\<rparr>)"
  by (auto simp add: variable_scope_def bind_err_eq_Inr)

lemma get_variable_eq_Inr:
  "get_variable g name shp i r = Inr (t, g') \<longleftrightarrow>
   scope_join (current_scope g) name \<notin> set (map v_name (global_variables g)) \<and>
   t = \<lparr>get_shape = map Some shp, run = read_variable (scope_join (current_scope g) name)\<rparr> \<and>
   g' = g\<lparr>global_variables := global_variables g @
           [\<lparr>v_name = scope_join (current_scope g) name, v_shape = shp, v_init = i, v_reg = r\<rparr>]\<rparr>"
  by (auto simp add: get_variable_def Let_def)

lemma dim_int_eq_Inr: "dim_int d = Inr n \<longleftrightarrow> d = Some n"
  by (simp add: dim_int_def split: option.splits)

lemma weights_neq_biases: "scope_join s ''weights'' \<noteq> scope_join s ''biases''"
  by (simp add: scope_join_def)

lemma read_variable_cong:
  "variables e1 n = variables e2 n \<Longrightarrow> read_variable n e1 = read_variable n e2"
  by (simp add: read_variable_def)

lemma agree_on_append [simp]:
  "agree_on (ns @ ms) e1 e2 \<longleftrightarrow> agree_on ns e1 e2 \<and> agree_on ms e1 e2"
  by (simp add: agree_on_def)

lemma agree_on_layer_names:
  "agree_on (layer_names p l) e1 e2 \<Longrightarrow>
   read_variable (scope_join (scope_join p l) ''weights'') e1 =
   read_variable (scope_join (scope_join p l) ''weights'') e2 \<and>
   read_variable (scope_join (scope_join p l) ''biases'') e1 =
   read_variable (scope_join (scope_join p l) ''biases'') e2"
  by (simp add: agree_on_def layer_names_def read_variable_def)

lemma adds_variables_trans:
  "adds_variables g ns g1 \<Longrightarrow> adds_variables g1 ms g2 \<Longrightarrow> adds_variables g (ns @ ms) g2"
  by (auto simp add: adds_variables_def)

lemma adds_variables_rescope:
  "adds_variables (g\<lparr>current_scope := p\<rparr>) ns g1 \<Longrightarrow>
   adds_variables g ns (g1\<lparr>current_scope := current_scope g\<rparr>)"
  by (simp add: adds_variables_def)

lemma adds_variables_distinct:
  "adds_variables g ns g' \<Longrightarrow> distinct (map v_name (global_variables g)) \<Longrightarrow>
   distinct (map v_name (global_variables g'))"
  by (auto simp add: adds_variables_def)

text \<open>What a successful layer has done.\<close>

lemma slim_convolution_Inr:
  assumes "slim_convolution K g x no ks st wi bi wr br sc = Inr (t, g')"
  shows "\<exists>n h w ci h' w'. get_shape x = [n, h, w, Some ci] \<and>
            valid_out_dim h (fst ks) (fst st) = Inr h' \<and>
            valid_out_dim w (snd ks) (snd st) = Inr w' \<and>
            get_shape t = [n, h', w', Some no]"
    and "adds_variables g (layer_names (current_scope g) sc) g'"
    and "run x e1 = run x e2 \<Longrightarrow> agree_on (layer_names (current_scope g) sc) e1 e2 \<Longrightarrow>
         run t e1 = run t e2"
proof -
  from assms obtain n h w c where shp: "get_shape x = [n, h, w, c]"
    by (auto simp add: slim_convolution_def split: list.splits)
  with assms have *: "\<exists>ci h' w'. c = Some ci \<and>
            valid_out_dim h (fst ks) (fst st) = Inr h' \<and>
            valid_out_dim w (snd ks) (snd st) = Inr w' \<and>
            get_shape t = [n, h', w', Some no] \<and>
            current_scope g' = current_scope g \<and>
            scope_join (scope_join (current_scope g) sc) ''weights'' \<notin> set (map v_name (global_variables g)) \<and>
            scope_join (scope_join (current_scope g) sc) ''biases'' \<notin> set (map v_name (global_variables g)) \<and>
            map v_name (global_variables g') = map v_name (global_variables g) @
              [scope_join (scope_join (current_scope g) sc) ''weights'',
               scope_join (scope_join (current_scope g) sc) ''biases''] \<and>
            run t = (\<lambda>e. bind_err (run x e) (\<lambda>xv.
                      bind_err (read_variable (scope_join (scope_join (current_scope g) sc) ''weights'') e) (\<lambda>wv.
                      bind_err (read_variable (scope_join (scope_join (current_scope g) sc) ''biases'') e) (\<lambda>bv.
                      Inr (k_bias_add K (k_conv2d K st xv wv) bv)))))"
    by (auto simp add: slim_convolution_def variable_scope_eq_Inr bind_err_eq_Inr
        get_variable_eq_Inr dim_int_eq_Inr)
  from * shp show "\<exists>n h w ci h' w'. get_shape x = [n, h, w, Some ci] \<and>
            valid_out_dim h (fst ks) (fst st) = Inr h' \<and>
            valid_out_dim w (snd ks) (snd st) = Inr w' \<and>
            get_shape t = [n, h', w', Some no]"
    by blast
  from * show "adds_variables g (layer_names (current_scope g) sc) g'"
    by (elim exE conjE) (simp add: adds_variables_def layer_names_def weights_neq_biases)
  assume "run x e1 = run x e2" "agree_on (layer_names (current_scope g) sc) e1 e2"
  with * show "run t e1 = run t e2"
    by (elim exE conjE) (simp add: agree_on_layer_names)
qed

lemma slim_fully_connected_Inr:
  assumes "slim_fully_connected K g x no wi bi wr br sc = Inr (t, g')"
  shows "\<exists>n_in. 2 \<le> length (get_shape x) \<and> last (get_shape x) = Some n_in \<and>
            get_shape t = butlast (get_shape x) @ [Some no]"
    and "adds_variables g (layer_names (current_scope g) sc) g'"
    and "run x e1 = run x e2 \<Longrightarrow> agree_on (layer_names (current_scope g) sc) e1 e2 \<Longrightarrow>
         run t e1 = run t e2"
proof -
  from assms have *: "\<exists>n_in. 2 \<le> length (get_shape x) \<and> last (get_shape x) = Some n_in \<and>
            get_shape t = butlast (get_shape x) @ [Some no] \<and>
            current_scope g' = current_scope g \<and>
            scope_join (scope_join (current_scope g) sc) ''weights'' \<notin> set (map v_name (global_variables g)) \<and>
            scope_join (scope_join (current_scope g) sc) ''biases'' \<notin> set (map v_name (global_variables g)) \<and>
            map v_name (global_variables g') = map v_name (global_variables g) @
              [scope_join (scope_join (current_scope g) sc) ''weights'',
               scope_join (scope_join (current_scope g) sc) ''biases''] \<and>
            run t = (\<lambda>e. bind_err (run x e) (\<lambda>xv.
                      bind_err (read_variable (scope_join (scope_join (current_scope g) sc) ''weights'') e) (\<lambda>wv.
                      bind_err (read_variable (scope_join (scope_join (current_scope g) sc) ''biases'') e) (\<lambda>bv.
                      Inr (k_bias_add K (k_matmul K xv wv) bv)))))"
    by (auto simp add: slim_fully_connected_def variable_scope_eq_Inr bind_err_eq_Inr
        get_variable_eq_Inr dim_int_eq_Inr split: if_splits)
  from * show "\<exists>n_in. 2 \<le> length (get_shape x) \<and> last (get_shape x) = Some n_in \<and>
            get_shape t = butlast (get_shape x) @ [Some no]"
    by blast
  from * show "adds_variables g (layer_names (current_scope g) sc) g'"
    by (elim exE conjE) (simp add: adds_variables_def layer_names_def weights_neq_biases)
  assume "run x e1 = run x e2" "agree_on (layer_names (current_scope g) sc) e1 e2"
  with * show "run t e1 = run t e2"
    by (elim exE conjE) (simp add: agree_on_layer_names)
qed

lemma slim_pool_Inr:
  assumes "slim_pool K x ks st = Inr t"
  shows "\<exists>n h w c h' w'. get_shape x = [n, h, w, c] \<and>
            valid_out_dim h (fst ks) (fst st) = Inr h' \<and>
            valid_out_dim w (snd ks) (snd st) = Inr w' \<and>
            get_shape t = [n, h', w', c]"
    and "run x e1 = run x e2 \<Longrightarrow> run t e1 = run t e2"
proof -
  from assms obtain n h w c where shp: "get_shape x = [n, h, w, c]"
    by (auto simp add: slim_pool_def split: list.splits)
  with assms have *: "\<exists>h' w'. valid_out_dim h (fst ks) (fst st) = Inr h' \<and>
            valid_out_dim w (snd ks) (snd st) = Inr w' \<and>
            get_shape t = [n, h', w', c] \<and>
            run t = (\<lambda>e. bind_err (run x e) (\<lambda>xv. Inr (k_max_pool K ks st xv)))"
    by (auto simp add: slim_pool_def bind_err_eq_Inr)
  from * shp show "\<exists>n h w c h' w'. get_shape x = [n, h, w, c] \<and>
            valid_out_dim h (fst ks) (fst st) = Inr h' \<and>
            valid_out_dim w (snd ks) (snd st) = Inr w' \<and>
            get_shape t = [n, h', w', c]"
    by blast
  assume "run x e1 = run x e2"
  with * show "run t e1 = run t e2"
    by (elim exE conjE) simp
qed

lemma get_shape_relu [simp]: "get_shape (tf_nn_relu K t) = get_shape t"
  by (simp add: tf_nn_relu_def)

lemma get_shape_dropout [simp]: "get_shape (slim_dropout K g t p tr sc) = get_shape t"
  by (simp add: slim_dropout_def tf_identity_def)

lemma run_relu_cong: "run t e1 = run t e2 \<Longrightarrow> run (tf_nn_relu K t) e1 = run (tf_nn_relu K t) e2"
  by (simp add: tf_nn_relu_def)

lemma run_dropout_cong:
  "run t e1 = run t e2 \<Longrightarrow> (tr \<longrightarrow> random_uniform e1 = random_uniform e2) \<Longrightarrow>
   run (slim_dropout K g t p tr sc) e1 = run (slim_dropout K g t p tr sc) e2"
  by (simp add: slim_dropout_def tf_identity_def)

lemma tf_transpose_cong:
  "tf_transpose K x perm = Inr t \<Longrightarrow> run x e1 = run x e2 \<Longrightarrow> run t e1 = run t e2"
  by (auto simp add: tf_transpose_def split: if_splits)

lemma tf_reshape_cong:
  "tf_reshape K x target = Inr t \<Longrightarrow> run x e1 = run x e2 \<Longrightarrow> run t e1 = run t e2"
  by (auto simp add: tf_reshape_def bind_err_eq_Inr)

lemma reshaping_cong:
  assumes "reshaping K x = Inr t" "run x e1 = run x e2"
  shows "run t e1 = run t e2"
proof -
  from assms(1) obtain t1 t2 a b where
    "tf_transpose K x [0, 2, 1, 3] = Inr t1" "tf_reshape K t1 a = Inr t2" "tf_reshape K t2 b = Inr t"
    by (auto simp add: reshaping_def bind_err_eq_Inr Let_def)
  with assms(2) show ?thesis
    by (blast intro: tf_transpose_cong tf_reshape_cong)
qed

text \<open>What a successful block has done.\<close>

lemma first_convolutional_block_Inr:
  assumes "first_convolutional_block K self g x tr = Inr (t, g')"
  shows "\<exists>n h w ci h1 w1 h2 w2. get_shape x = [n, h, w, Some ci] \<and>
            valid_out_dim h 57 1 = Inr h1 \<and> valid_out_dim w 6 1 = Inr w1 \<and>
            valid_out_dim h1 4 1 = Inr h2 \<and> valid_out_dim w1 3 3 = Inr w2 \<and>
            get_shape t = [n, h2, w2, Some 80]"
    and "adds_variables g (layer_names (current_scope g) ''cnn_1'') g'"
    and "\<lbrakk>run x e1 = run x e2; agree_on (layer_names (current_scope g) ''cnn_1'') e1 e2;
          tr \<longrightarrow> random_uniform e1 = random_uniform e2\<rbrakk> \<Longrightarrow> run t e1 = run t e2"
proof -
  from assms obtain c where
    conv: "slim_convolution K g x 80 (57, 6) (1, 1) (W_init self) (b_init self) (W_reg self)
             (b_reg self) ''cnn_1'' = Inr (c, g')"
    and pool: "slim_pool K (slim_dropout K g' (tf_nn_relu K c) (1 / 2) tr ''cnn_1'') (4, 3) (1, 3) = Inr t"
    by (auto simp add: first_convolutional_block_def bind_err_eq_Inr Let_def)
  from slim_convolution_Inr(1) [OF conv] obtain n h w ci h1 w1 where
    c: "get_shape x = [n, h, w, Some ci]" "valid_out_dim h 57 1 = Inr h1"
       "valid_out_dim w 6 1 = Inr w1" "get_shape c = [n, h1, w1, Some 80]"
    by (elim exE conjE) simp
  from slim_pool_Inr(1) [OF pool] c(4) obtain h2 w2 where
    p: "valid_out_dim h1 4 1 = Inr h2" "valid_out_dim w1 3 3 = Inr w2"
       "get_shape t = [n, h2, w2, Some 80]"
    by (elim exE conjE) simp
  from c p show "\<exists>n h w ci h1 w1 h2 w2. get_shape x = [n, h, w, Some ci] \<and>
            valid_out_dim h 57 1 = Inr h1 \<and> valid_out_dim w 6 1 = Inr w1 \<and>
            valid_out_dim h1 4 1 = Inr h2 \<and> valid_out_dim w1 3 3 = Inr w2 \<and>
            get_shape t = [n, h2, w2, Some 80]"
    by blast
  show "adds_variables g (layer_names (current_scope g) ''cnn_1'') g'"
    by (rule slim_convolution_Inr(2) [OF conv])
  assume a: "run x e1 = run x e2" "agree_on (layer_names (current_scope g) ''cnn_1'') e1 e2"
    "tr \<longrightarrow> random_uniform e1 = random_uniform e2"
  have "run c e1 = run c e2"
    by (rule slim_convolution_Inr(3) [OF conv a(1,2)])
  then have "run (slim_dropout K g' (tf_nn_relu K c) (1 / 2) tr ''cnn_1'') e1 =
             run (slim_dropout K g' (tf_nn_relu K c) (1 / 2) tr ''cnn_1'') e2"
    using a(3) by (intro run_dropout_cong run_relu_cong)
  then show "run t e1 = run t e2"
    by (rule slim_pool_Inr(2) [OF pool])
qed

lemma second_convolutional_block_Inr:
  assumes "second_convolutional_block K self g x = Inr (t, g')"
  shows "\<exists>n h w ci h1 w1 h2 w2. get_shape x = [n, h, w, Some ci] \<and>
            valid_out_dim h 1 1 = Inr h1 \<and> valid_out_dim w 3 1 = Inr w1 \<and>
            valid_out_dim h1 1 1 = Inr h2 \<and> valid_out_dim w1 3 3 = Inr w2 \<and>
            get_shape t = [n, h2, w2, Some 80]"
    and "adds_variables g (layer_names (current_scope g) ''cnn_2'') g'"
    and "\<lbrakk>run x e1 = run x e2; agree_on (layer_names (current_scope g) ''cnn_2'') e1 e2\<rbrakk>
         \<Longrightarrow> run t e1 = run t e2"
proof -
  from assms obtain c where
    conv: "slim_convolution K g x 80 (1, 3) (1, 1) (W_init self) (b_init self) (W_reg self)
             (b_reg self) ''cnn_2'' = Inr (c, g')"
    and pool: "slim_pool K (tf_nn_relu K c) (1, 3) (1, 3) = Inr t"
    by (auto simp add: second_convolutional_block_def bind_err_eq_Inr Let_def)
  from slim_convolution_Inr(1) [OF conv] obtain n h w ci h1 w1 where
    c: "get_shape x = [n, h, w, Some ci]" "valid_out_dim h 1 1 = Inr h1"
       "valid_out_dim w 3 1 = Inr w1" "get_shape c = [n, h1, w1, Some 80]"
    by (elim exE conjE) simp
  from slim_pool_Inr(1) [OF pool] c(4) obtain h2 w2 where
    p: "valid_out_dim h1 1 1 = Inr h2" "valid_out_dim w1 3 3 = Inr w2"
       "get_shape t = [n, h2, w2, Some 80]"
    by (elim exE conjE) simp
  from c p show "\<exists>n h w ci h1 w1 h2 w2. get_shape x = [n, h, w, Some ci] \<and>
            valid_out_dim h 1 1 = Inr h1 \<and> valid_out_dim w 3 1 = Inr w1 \<and>
            valid_out_dim h1 1 1 = Inr h2 \<and> valid_out_dim w1 3 3 = Inr w2 \<and>
            get_shape t = [n, h2, w2, Some 80]"
    by blast
  show "adds_variables g (layer_names (current_scope g) ''cnn_2'') g'"
    by (rule slim_convolution_Inr(2) [OF conv])
  assume a: "run x e1 = run x e2" "agree_on (layer_names (current_scope g) ''cnn_2'') e1 e2"
  have "run c e1 = run c e2"
    by (rule slim_convolution_Inr(3) [OF conv a])
  then have "run (tf_nn_relu K c) e1 = run (tf_nn_relu K c) e2"
    by (rule run_relu_cong)
  then show "run t e1 = run t e2"
    by (rule slim_pool_Inr(2) [OF pool])
qed

lemma adds_variables_scope: "adds_variables g ns g' \<Longrightarrow> current_scope g' = current_scope g"
  by (simp add: adds_variables_def)

lemma dense_part_Inr:
  assumes "dense_part K self g x tr = Inr (t, g')"
  shows "get_shape t = butlast (get_shape x) @ [Some 5000]"
    and "adds_variables g (layer_names (current_scope g) ''dense_1'' @
                            layer_names (current_scope g) ''dense_2'') g'"
    and "\<lbrakk>run x e1 = run x e2; agree_on (layer_names (current_scope g) ''dense_1'') e1 e2;
          agree_on (layer_names (current_scope g) ''dense_2'') e1 e2;
          tr \<longrightarrow> random_uniform e1 = random_uniform e2\<rbrakk> \<Longrightarrow> run t e1 = run t e2"
proof -
  from assms obtain d1 g1 d2 where
    fc1: "slim_fully_connected K g x 5000 (W_init self) (b_init self) (W_reg self) (b_reg self)
            ''dense_1'' = Inr (d1, g1)"
    and fc2: "slim_fully_connected K g1 (slim_dropout K g1 (tf_nn_relu K d1) (1 / 2) tr ''dense_1'')
            5000 (W_init self) (b_init self) (W_reg self) (b_reg self) ''dense_2'' = Inr (d2, g')"
    and t: "t = slim_dropout K g' (tf_nn_relu K d2) (1 / 2) tr ''dense_2''"
    by (auto simp add: dense_part_def bind_err_eq_Inr Let_def)
  note s1 = adds_variables_scope [OF slim_fully_connected_Inr(2) [OF fc1]]
  from slim_fully_connected_Inr(1) [OF fc1] have sh1: "get_shape d1 = butlast (get_shape x) @ [Some 5000]"
    by blast
  from slim_fully_connected_Inr(1) [OF fc2] sh1 t
  show "get_shape t = butlast (get_shape x) @ [Some 5000]"
    by auto
  show "adds_variables g (layer_names (current_scope g) ''dense_1'' @
                            layer_names (current_scope g) ''dense_2'') g'"
    using adds_variables_trans [OF slim_fully_connected_Inr(2) [OF fc1]
        slim_fully_connected_Inr(2) [OF fc2]] s1 by simp
  assume a: "run x e1 = run x e2" "agree_on (layer_names (current_scope g) ''dense_1'') e1 e2"
    "agree_on (layer_names (current_scope g) ''dense_2'') e1 e2"
    "tr \<longrightarrow> random_uniform e1 = random_uniform e2"
  have "run d1 e1 = run d1 e2"
    by (rule slim_fully_connected_Inr(3) [OF fc1 a(1,2)])
  then have "run (slim_dropout K g1 (tf_nn_relu K d1) (1 / 2) tr ''dense_1'') e1 =
             run (slim_dropout K g1 (tf_nn_relu K d1) (1 / 2) tr ''dense_1'') e2"
    using a(4) by (intro run_dropout_cong run_relu_cong)
  moreover have "agree_on (layer_names (current_scope g1) ''dense_2'') e1 e2"
    using a(3) s1 by simp
  ultimately have "run d2 e1 = run d2 e2"
    by (rule slim_fully_connected_Inr(3) [OF fc2])
  then show "run t e1 = run t e2"
    unfolding t using a(4) by (intro run_dropout_cong run_relu_cong)
qed

lemma linear_output_layer_Inr:
  assumes "linear_output_layer K self g x = Inr (t, g')"
  shows "get_shape t = butlast (get_shape x) @ [Some (num_classes self)]"
    and "adds_variables g (layer_names (current_scope g) ''output'') g'"
    and "\<lbrakk>run x e1 = run x e2; agree_on (layer_names (current_scope g) ''output'') e1 e2\<rbrakk>
         \<Longrightarrow> run t e1 = run t e2"
proof -
  from assms have fc: "slim_fully_connected K g x (num_classes self) (W_init self) (b_init self)
      (W_reg self) (b_reg self) ''output'' = Inr (t, g')"
    by (simp add: linear_output_layer_def)
  from slim_fully_connected_Inr(1) [OF fc]
  show "get_shape t = butlast (get_shape x) @ [Some (num_classes self)]" by blast
  show "adds_variables g (layer_names (current_scope g) ''output'') g'"
    by (rule slim_fully_connected_Inr(2) [OF fc])
  assume "run x e1 = run x e2" "agree_on (layer_names (current_scope g) ''output'') e1 e2"
  then show "run t e1 = run t e2"
    by (rule slim_fully_connected_Inr(3) [OF fc])
qed

text \<open>What a successful build has done: the variables it created and what its output reads.\<close>

lemma build_predict_op_Inr:
  assumes "build_predict_op K self g x tr = Inr (t, g')"
  shows "adds_variables g (layer_variable_names (scope_join (current_scope g) ''piczak'')) g'"
    and "\<lbrakk>run x e1 = run x e2;
          agree_on (layer_variable_names (scope_join (current_scope g) ''piczak'')) e1 e2;
          tr \<longrightarrow> random_uniform e1 = random_uniform e2\<rbrakk> \<Longrightarrow> run t e1 = run t e2"
proof -
  define p where "p = scope_join (current_scope g) ''piczak''"
  define g0 where "g0 = g\<lparr>current_scope := p\<rparr>"
  have p0: "current_scope g0 = p" by (simp add: g0_def)
  from assms obtain t1 g1 t2 g2 t3 t4 g4 g5 where
    b1: "first_convolutional_block K self g0 x tr = Inr (t1, g1)"
    and b2: "second_convolutional_block K self g1 t1 = Inr (t2, g2)"
    and b3: "reshaping K t2 = Inr t3"
    and b4: "dense_part K self g2 t3 tr = Inr (t4, g4)"
    and b5: "linear_output_layer K self g4 t4 = Inr (t, g5)"
    and g': "g' = g5\<lparr>current_scope := current_scope g\<rparr>"
    unfolding build_predict_op_def variable_scope_eq_Inr g0_def p_def
    by (auto simp add: bind_err_eq_Inr)
  note a1 = first_convolutional_block_Inr(2) [OF b1]
  note a2 = second_convolutional_block_Inr(2) [OF b2]
  note a4 = dense_part_Inr(2) [OF b4]
  note a5 = linear_output_layer_Inr(2) [OF b5]
  have p1: "current_scope g1 = p" using adds_variables_scope [OF a1] p0 by simp
  have p2: "current_scope g2 = p" using adds_variables_scope [OF a2] p1 by simp
  have p4: "current_scope g4 = p" using adds_variables_scope [OF a4] p2 by simp
  have "adds_variables g0 (layer_variable_names p) g5"
    using adds_variables_trans [OF adds_variables_trans [OF adds_variables_trans [OF a1 a2] a4] a5]
    by (simp add: layer_variable_names_def p0 p1 p2 p4)
  then show "adds_variables g (layer_variable_names (scope_join (current_scope g) ''piczak'')) g'"
    unfolding g' g0_def p_def by (rule adds_variables_rescope)
  assume a: "run x e1 = run x e2"
    "agree_on (layer_variable_names (scope_join (current_scope g) ''piczak'')) e1 e2"
    "tr \<longrightarrow> random_uniform e1 = random_uniform e2"
  from a(2) have ag: "agree_on (layer_names p ''cnn_1'') e1 e2" "agree_on (layer_names p ''cnn_2'') e1 e2"
    "agree_on (layer_names p ''dense_1'') e1 e2" "agree_on (layer_names p ''dense_2'') e1 e2"
    "agree_on (layer_names p ''output'') e1 e2"
    by (simp_all add: layer_variable_names_def p_def)
  have "run t1 e1 = run t1 e2"
    using a(1) ag(1) a(3) by (intro first_convolutional_block_Inr(3) [OF b1]) (simp_all add: p0)
  then have "run t2 e1 = run t2 e2"
    using ag(2) by (intro second_convolutional_block_Inr(3) [OF b2]) (simp_all add: p1)
  then have "run t3 e1 = run t3 e2"
    by (rule reshaping_cong [OF b3])
  then have "run t4 e1 = run t4 e2"
    using ag(3,4) a(3) by (intro dense_part_Inr(3) [OF b4]) (simp_all add: p2)
  then show "run t e1 = run t e2"
    using ag(5) by (intro linear_output_layer_Inr(3) [OF b5]) (simp_all add: p4)
qed

lemma agree_on_same_variables: "variables e1 = variables e2 \<Longrightarrow> agree_on ns e1 e2"
  by (simp add: agree_on_def list_all_iff)

lemma tf_identity_id: "tf_identity t = t"
  by (cases t) (simp add: tf_identity_def)

lemma slim_dropout_False: "slim_dropout K g t p False sc = t"
  by (simp add: slim_dropout_def tf_identity_id)

text \<open>
  C5. With \<open>is_training = False\<close> each of the three dropout layers of the pipeline (scopes
  \<open>cnn_1\<close>, \<open>dense_1\<close>, \<open>dense_2\<close>) returns its input tensor unchanged, so the blocks that
  contain them are the blocks without the dropout call.
\<close>

theorem dropout_identity_when_not_training:
  "slim_dropout K g predict_op (1 / 2) False ''cnn_1'' = predict_op \<and>
   slim_dropout K g predict_op (1 / 2) False ''dense_1'' = predict_op \<and>
   slim_dropout K g predict_op (1 / 2) False ''dense_2'' = predict_op \<and>
   run (slim_dropout K g predict_op keep_prob False scope) e = run predict_op e \<and>
   first_convolutional_block K self g predict_op False =
     bind_err (slim_convolution K g predict_op 80 (57, 6) (1, 1)
                 (W_init self) (b_init self) (W_reg self) (b_reg self) ''cnn_1'')
       (\<lambda>(c, g). bind_err (slim_pool K (tf_nn_relu K c) (4, 3) (1, 3)) (\<lambda>p. Inr (p, g))) \<and>
   dense_part K self g predict_op False =
     bind_err (slim_fully_connected K g predict_op 5000
                 (W_init self) (b_init self) (W_reg self) (b_reg self) ''dense_1'')
       (\<lambda>(d, g). bind_err (slim_fully_connected K g (tf_nn_relu K d) 5000
                 (W_init self) (b_init self) (W_reg self) (b_reg self) ''dense_2'')
       (\<lambda>(d, g). Inr (tf_nn_relu K d, g)))"
  by (simp add: slim_dropout_False first_convolutional_block_def dense_part_def)

text \<open>
  C6. For a graph built with \<open>is_training = False\<close>, two runs that see the same variable
  values and the same value of the input tensor return the same output, whatever else
  differs between them (the random source of dropout, other feeds).
\<close>

theorem build_predict_op_deterministic:
  assumes "build_predict_op K self g input_tensor False = Inr (predict_op, g')"
    and "variables e1 = variables e2"
    and "run input_tensor e1 = run input_tensor e2"
  shows "run predict_op e1 = run predict_op e2"
  using assms(3) agree_on_same_variables [OF assms(2)]
  by (intro build_predict_op_Inr(2) [OF assms(1)]) simp_all

lemmas pipeline_defs =
  build_predict_op_def flattened_def variable_scope_def first_convolutional_block_def
  second_convolutional_block_def reshaping_def dense_part_def linear_output_layer_def
  slim_convolution_def slim_pool_def slim_dropout_def slim_fully_connected_def
  tf_identity_def tf_nn_relu_def tf_transpose_def tf_reshape_def reshape_shape_def
  get_variable_def scope_join_def dim_int_def dim_mult_def valid_out_dim_def Let_def

theorem build_predict_op_deterministic_witness:
  "\<exists>t g'. build_predict_op int_kernels default_piczak empty_graph
             (placeholder ''x'' [Some 1, Some 60, Some 41, Some 1]) False = Inr (t, g') \<and>
     run t \<lparr>variables = trained_session, feed_dict = [''x'' \<mapsto> 5], random_uniform = (\<lambda>n. 0)\<rparr> =
     run t \<lparr>variables = trained_session, feed_dict = [''x'' \<mapsto> 5, ''y'' \<mapsto> 2], random_uniform = (\<lambda>n. 1)\<rparr>"
proof -
  obtain t g' where b: "build_predict_op int_kernels default_piczak empty_graph
             (placeholder ''x'' [Some 1, Some 60, Some 41, Some 1]) False = Inr (t, g')"
    by (simp add: pipeline_defs empty_graph_def placeholder_def default_piczak_def init_piczak_def)
  have "run t \<lparr>variables = trained_session, feed_dict = [''x'' \<mapsto> 5], random_uniform = (\<lambda>n. 0)\<rparr> =
     run t \<lparr>variables = trained_session, feed_dict = [''x'' \<mapsto> 5, ''y'' \<mapsto> 2], random_uniform = (\<lambda>n. 1)\<rparr>"
    by (rule build_predict_op_deterministic [OF b]) (simp_all add: placeholder_def)
  with b show ?thesis by blast
qed

text \<open>
  C9. When the frequency dimension of the input is below 57 or its time dimension below
  6, \<open>build_predict_op\<close> returns an error and no graph; on a graph where the names of the
  first layer are free and for an input with a known channel dimension, the error is the
  shape error of the first convolution.
\<close>

theorem build_predict_op_rejects_small_input:
  assumes "get_shape input_tensor = [n, Some h, Some w, c]" and "h < 57 \<or> w < 6"
  shows "(\<exists>e. build_predict_op K self g input_tensor is_training = Inl e) \<and>
         (c \<noteq> None \<and>
          set (layer_names (scope_join (current_scope g) ''piczak'') ''cnn_1'') \<inter>
            set (map v_name (global_variables g)) = {} \<longrightarrow>
          build_predict_op K self g input_tensor is_training = Inl NegativeDimension)"
proof (intro conjI impI)
  have "build_predict_op K self g input_tensor is_training \<noteq> Inr (t, g')" for t g'
  proof
    assume "build_predict_op K self g input_tensor is_training = Inr (t, g')"
    then obtain t1 g1 where
      "first_convolutional_block K self (g\<lparr>current_scope := scope_join (current_scope g) ''piczak''\<rparr>)
         input_tensor is_training = Inr (t1, g1)"
      unfolding build_predict_op_def variable_scope_eq_Inr by (auto simp add: bind_err_eq_Inr)
    from first_convolutional_block_Inr(1) [OF this] assms(1)
    obtain h1 w1 where "valid_out_dim (Some h) 57 1 = Inr h1" "valid_out_dim (Some w) 6 1 = Inr w1"
      by (elim exE conjE) simp
    with assms(2) show False
      by (auto simp add: valid_out_dim_def split: if_splits)
  qed
  then show "\<exists>e. build_predict_op K self g input_tensor is_training = Inl e"
    by (cases "build_predict_op K self g input_tensor is_training") auto
next
  assume "c \<noteq> None \<and>
          set (layer_names (scope_join (current_scope g) ''piczak'') ''cnn_1'') \<inter>
            set (map v_name (global_variables g)) = {}"
  with assms show "build_predict_op K self g input_tensor is_training = Inl NegativeDimension"
    by (auto simp add: build_predict_op_def variable_scope_def first_convolutional_block_def
        slim_convolution_def get_variable_def layer_names_def dim_int_def valid_out_dim_def
        weights_neq_biases weights_neq_biases [THEN not_sym] Let_def)
qed

theorem build_predict_op_rejects_small_input_witness:
  "build_predict_op int_kernels default_piczak empty_graph
     (placeholder ''x'' [Some 8, Some 56, Some 41, Some 1]) True = Inl NegativeDimension"
  using build_predict_op_rejects_small_input [where input_tensor = "placeholder ''x'' [Some 8, Some 56, Some 41, Some 1]"
      and n = "Some 8" and h = 56 and w = 41 and c = "Some 1" and K = int_kernels
      and self = default_piczak and g = empty_graph and is_training = True]
  by (simp add: placeholder_def empty_graph_def)

text \<open>When a layer, a block and the whole build succeed, and with which shape.\<close>

lemma slim_convolution_success:
  assumes "get_shape x = [n, h, w, Some ci]"
    and "valid_out_dim h (fst ks) (fst st) = Inr h'"
    and "valid_out_dim w (snd ks) (snd st) = Inr w'"
    and "set (layer_names (current_scope g) sc) \<inter> set (map v_name (global_variables g)) = {}"
  shows "\<exists>t g'. slim_convolution K g x no ks st wi bi wr br sc = Inr (t, g') \<and>
           get_shape t = [n, h', w', Some no]"
  using assms
  by (simp add: slim_convolution_def variable_scope_def get_variable_def layer_names_def
      dim_int_def weights_neq_biases [THEN not_sym] Let_def)

lemma slim_fully_connected_success:
  assumes "get_shape x = [n, Some f]"
    and "set (layer_names (current_scope g) sc) \<inter> set (map v_name (global_variables g)) = {}"
  shows "\<exists>t g'. slim_fully_connected K g x no wi bi wr br sc = Inr (t, g') \<and>
           get_shape t = [n, Some no]"
  using assms
  by (simp add: slim_fully_connected_def variable_scope_def get_variable_def layer_names_def
      dim_int_def weights_neq_biases [THEN not_sym] Let_def)

lemma slim_pool_success:
  assumes "get_shape x = [n, h, w, c]"
    and "valid_out_dim h (fst ks) (fst st) = Inr h'"
    and "valid_out_dim w (snd ks) (snd st) = Inr w'"
  shows "\<exists>t. slim_pool K x ks st = Inr t \<and> get_shape t = [n, h', w', c]"
  using assms by (simp add: slim_pool_def)

lemma first_convolutional_block_success:
  assumes "get_shape x = [n, h, w, Some ci]"
    and "valid_out_dim h 57 1 = Inr h1" and "valid_out_dim w 6 1 = Inr w1"
    and "valid_out_dim h1 4 1 = Inr h2" and "valid_out_dim w1 3 3 = Inr w2"
    and "set (layer_names (current_scope g) ''cnn_1'') \<inter> set (map v_name (global_variables g)) = {}"
  shows "\<exists>t g'. first_convolutional_block K self g x tr = Inr (t, g') \<and>
           get_shape t = [n, h2, w2, Some 80]"
proof -
  from slim_convolution_success [where ks = "(57, 6)" and st = "(1, 1)", OF assms(1) _ _ assms(6)]
    assms(2,3)
  obtain c g' where c: "slim_convolution K g x 80 (57, 6) (1, 1) (W_init self) (b_init self)
      (W_reg self) (b_reg self) ''cnn_1'' = Inr (c, g')" "get_shape c = [n, h1, w1, Some 80]"
    by fastforce
  from slim_pool_success [where ks = "(4, 3)" and st = "(1, 3)"
      and x = "slim_dropout K g' (tf_nn_relu K c) (1 / 2) tr ''cnn_1''"] c(2) assms(4,5)
  obtain t where "slim_pool K (slim_dropout K g' (tf_nn_relu K c) (1 / 2) tr ''cnn_1'') (4, 3) (1, 3) = Inr t"
    "get_shape t = [n, h2, w2, Some 80]"
    by fastforce
  with c(1) show ?thesis
    by (simp add: first_convolutional_block_def Let_def)
qed

lemma second_convolutional_block_success:
  assumes "get_shape x = [n, h, w, Some ci]"
    and "valid_out_dim h 1 1 = Inr h1" and "valid_out_dim w 3 1 = Inr w1"
    and "valid_out_dim h1 1 1 = Inr h2" and "valid_out_dim w1 3 3 = Inr w2"
    and "set (layer_names (current_scope g) ''cnn_2'') \<inter> set (map v_name (global_variables g)) = {}"
  shows "\<exists>t g'. second_convolutional_block K self g x = Inr (t, g') \<and>
           get_shape t = [n, h2, w2, Some 80]"
proof -
  from slim_convolution_success [where ks = "(1, 3)" and st = "(1, 1)", OF assms(1) _ _ assms(6)]
    assms(2,3)
  obtain c g' where c: "slim_convolution K g x 80 (1, 3) (1, 1) (W_init self) (b_init self)
      (W_reg self) (b_reg self) ''cnn_2'' = Inr (c, g')" "get_shape c = [n, h1, w1, Some 80]"
    by fastforce
  from slim_pool_success [where ks = "(1, 3)" and st = "(1, 3)" and x = "tf_nn_relu K c"]
    c(2) assms(4,5)
  obtain t where "slim_pool K (tf_nn_relu K c) (1, 3) (1, 3) = Inr t"
    "get_shape t = [n, h2, w2, Some 80]"
    by fastforce
  with c(1) show ?thesis
    by (simp add: second_convolutional_block_def Let_def)
qed

lemma reshape_merge:
  assumes "0 < a" "0 < b" "0 < c"
  shows "reshape_shape [n, Some a, Some b, Some c] [- 1, int a, int (b * c)] =
         Inr [n, Some a, Some (b * c)]"
  using assms by (cases n) (simp_all add: reshape_shape_def Let_def del: of_nat_mult)

lemma reshape_flatten:
  assumes "0 < a" "0 < b"
  shows "reshape_shape [n, Some a, Some b] [- 1, int a * int b] = Inr [n, Some (a * b)]"
  unfolding of_nat_mult [symmetric]
  using assms by (cases n) (simp_all add: reshape_shape_def Let_def del: of_nat_mult)

lemma reshaping_success:
  assumes "get_shape x = [n, Some H, Some W, Some C]" and "0 < H" and "0 < W" and "0 < C"
  shows "\<exists>t1 t2 t3.
           tf_transpose K x [0, 2, 1, 3] = Inr t1 \<and> get_shape t1 = [n, Some W, Some H, Some C] \<and>
           tf_reshape K t1 [- 1, int W, int (H * C)] = Inr t2 \<and>
           get_shape t2 = [n, Some W, Some (H * C)] \<and>
           tf_reshape K t2 [- 1, int W * int (H * C)] = Inr t3 \<and>
           get_shape t3 = [n, Some (W * (H * C))] \<and>
           reshaping K x = Inr t3 \<and>
           run t3 = (\<lambda>e. bind_err (run x e) (\<lambda>v.
                      Inr (k_reshape K [- 1, int W * int (H * C)]
                            (k_reshape K [- 1, int W, int (H * C)]
                              (k_transpose K [0, 2, 1, 3] v)))))"
proof -
  define t1 where "t1 = \<lparr>get_shape = [n, Some W, Some H, Some C],
     run = (\<lambda>e. bind_err (run x e) (\<lambda>v. Inr (k_transpose K [0, 2, 1, 3] v)))\<rparr>"
  define t2 where "t2 = \<lparr>get_shape = [n, Some W, Some (H * C)],
     run = (\<lambda>e. bind_err (run t1 e) (\<lambda>v. Inr (k_reshape K [- 1, int W, int (H * C)] v)))\<rparr>"
  define t3 where "t3 = \<lparr>get_shape = [n, Some (W * (H * C))],
     run = (\<lambda>e. bind_err (run t2 e) (\<lambda>v. Inr (k_reshape K [- 1, int W * int (H * C)] v)))\<rparr>"
  have "sort [0, 2, 1, 3::nat] = [0..<4]"
    by code_simp
  moreover have "length (get_shape x) = 4"
    using assms(1) by simp
  ultimately have srt: "sort [0, 2, 1, 3] = [0..<length (get_shape x)]"
    by (simp only:)
  have tr: "tf_transpose K x [0, 2, 1, 3] = Inr t1"
    unfolding tf_transpose_def by (simp only: srt if_True) (simp add: assms(1) t1_def)
  have HC: "0 < H * C" using assms by simp
  have r1: "tf_reshape K t1 [- 1, int W, int (H * C)] = Inr t2"
    using reshape_merge [OF assms(3,2,4), of n]
    by (simp add: tf_reshape_def t1_def t2_def del: of_nat_mult)
  have r2: "tf_reshape K t2 [- 1, int W * int (H * C)] = Inr t3"
    using reshape_flatten [OF assms(3) HC, of n]
    by (simp add: tf_reshape_def t2_def t3_def del: of_nat_mult)
  have sh: "get_shape t1 = [n, Some W, Some H, Some C]" "get_shape t2 = [n, Some W, Some (H * C)]"
    "get_shape t3 = [n, Some (W * (H * C))]"
    by (simp_all add: t1_def t2_def t3_def)
  have rs: "reshaping K x = Inr t3"
    unfolding reshaping_def tr bind_err_Inr Let_def
    using r1 r2 by (simp add: sh dim_int_def dim_mult_def del: of_nat_mult)
  have rn: "run t3 = (\<lambda>e. bind_err (run x e) (\<lambda>v.
                      Inr (k_reshape K [- 1, int W * int (H * C)]
                            (k_reshape K [- 1, int W, int (H * C)]
                              (k_transpose K [0, 2, 1, 3] v)))))"
    by (simp add: t3_def t2_def t1_def bind_err_assoc del: of_nat_mult)
  from tr r1 r2 sh rs rn show ?thesis by blast
qed

lemma distinct_layer_variable_names: "distinct (layer_variable_names p)"
  by (simp add: layer_variable_names_def layer_names_def scope_join_def)

lemma valid_out_dim_pos: "valid_out_dim d k s = Inr (Some m) \<Longrightarrow> 0 < m"
  by (auto simp add: valid_out_dim_def split: option.splits if_splits)

lemma adds_variables_names:
  "adds_variables g ns g' \<Longrightarrow> map v_name (global_variables g') = map v_name (global_variables g) @ ns"
  by (simp add: adds_variables_def)

lemma dense_part_success:
  assumes "get_shape x = [n, Some f]"
    and "set (layer_names (current_scope g) ''dense_1'') \<inter> set (map v_name (global_variables g)) = {}"
    and "set (layer_names (current_scope g) ''dense_2'') \<inter> set (map v_name (global_variables g)) = {}"
  shows "\<exists>t g'. dense_part K self g x tr = Inr (t, g') \<and> get_shape t = [n, Some 5000]"
proof -
  from slim_fully_connected_success [OF assms(1,2)]
  obtain d1 g1 where d1: "slim_fully_connected K g x 5000 (W_init self) (b_init self) (W_reg self)
      (b_reg self) ''dense_1'' = Inr (d1, g1)" "get_shape d1 = [n, Some 5000]"
    by blast
  note a1 = slim_fully_connected_Inr(2) [OF d1(1)]
  have "set (layer_names (current_scope g) ''dense_2'') \<inter> set (layer_names (current_scope g) ''dense_1'') = {}"
    using distinct_layer_variable_names [of "current_scope g"]
    by (simp add: layer_variable_names_def) blast
  with assms(3) have "set (layer_names (current_scope g1) ''dense_2'') \<inter>
      set (map v_name (global_variables g1)) = {}"
    unfolding adds_variables_names [OF a1] adds_variables_scope [OF a1] by auto
  from slim_fully_connected_success [OF _ this,
      where x = "slim_dropout K g1 (tf_nn_relu K d1) (1 / 2) tr ''dense_1''"] d1(2)
  obtain d2 g2 where "slim_fully_connected K g1 (slim_dropout K g1 (tf_nn_relu K d1) (1 / 2) tr ''dense_1'')
      5000 (W_init self) (b_init self) (W_reg self) (b_reg self) ''dense_2'' = Inr (d2, g2)"
    "get_shape d2 = [n, Some 5000]"
    by fastforce
  with d1(1) show ?thesis
    by (simp add: dense_part_def Let_def)
qed

lemma pipeline_success:
  assumes p: "current_scope g0 = p"
    and fresh: "set (layer_variable_names p) \<inter> set (map v_name (global_variables g0)) = {}"
    and x: "get_shape x = [n, h, w, Some ci]"
    and hs: "valid_out_dim h 57 1 = Inr h1" "valid_out_dim h1 4 1 = Inr h2"
            "valid_out_dim h2 1 1 = Inr h3" "valid_out_dim h3 1 1 = Inr (Some H)"
    and ws: "valid_out_dim w 6 1 = Inr w1" "valid_out_dim w1 3 3 = Inr w2"
            "valid_out_dim w2 3 1 = Inr w3" "valid_out_dim w3 3 3 = Inr (Some W)"
  shows "\<exists>t1 g1 t2 g2 t3 t4 g4 t5 g5.
           first_convolutional_block K self g0 x tr = Inr (t1, g1) \<and>
           second_convolutional_block K self g1 t1 = Inr (t2, g2) \<and>
           get_shape t2 = [n, Some H, Some W, Some 80] \<and>
           reshaping K t2 = Inr t3 \<and>
           get_shape t3 = [n, Some (W * (H * 80))] \<and>
           dense_part K self g2 t3 tr = Inr (t4, g4) \<and>
           linear_output_layer K self g4 t4 = Inr (t5, g5) \<and>
           get_shape t5 = [n, Some (num_classes self)]"
proof -
  note D = distinct_layer_variable_names [of p, unfolded layer_variable_names_def]
  note F = fresh [unfolded layer_variable_names_def]
  have f1: "set (layer_names (current_scope g0) ''cnn_1'') \<inter> set (map v_name (global_variables g0)) = {}"
    using F by (auto simp add: p)
  from first_convolutional_block_success [OF x hs(1) ws(1) hs(2) ws(2) f1]
  obtain t1 g1 where b1: "first_convolutional_block K self g0 x tr = Inr (t1, g1)"
    and s1: "get_shape t1 = [n, h2, w2, Some 80]"
    by blast
  note a1 = first_convolutional_block_Inr(2) [OF b1]
  have p1: "current_scope g1 = p" using adds_variables_scope [OF a1] p by simp
  have n1: "map v_name (global_variables g1) =
      map v_name (global_variables g0) @ layer_names p ''cnn_1''"
    using adds_variables_names [OF a1] p by simp
  have f2: "set (layer_names (current_scope g1) ''cnn_2'') \<inter> set (map v_name (global_variables g1)) = {}"
    unfolding p1 n1 using F D by auto
  from second_convolutional_block_success [OF s1 hs(3) ws(3) hs(4) ws(4) f2]
  obtain t2 g2 where b2: "second_convolutional_block K self g1 t1 = Inr (t2, g2)"
    and s2: "get_shape t2 = [n, Some H, Some W, Some 80]"
    by blast
  note a2 = second_convolutional_block_Inr(2) [OF b2]
  have p2: "current_scope g2 = p" using adds_variables_scope [OF a2] p1 by simp
  have n2: "map v_name (global_variables g2) =
      map v_name (global_variables g0) @ layer_names p ''cnn_1'' @ layer_names p ''cnn_2''"
    using adds_variables_names [OF a2] p1 n1 by simp
  have HW: "0 < H" "0 < W" "0 < (80::nat)"
    using valid_out_dim_pos [OF hs(4)] valid_out_dim_pos [OF ws(4)] by simp_all
  from reshaping_success [OF s2 HW]
  obtain t3 where b3: "reshaping K t2 = Inr t3" and s3: "get_shape t3 = [n, Some (W * (H * 80))]"
    by blast
  have f3: "set (layer_names (current_scope g2) ''dense_1'') \<inter> set (map v_name (global_variables g2)) = {}"
    "set (layer_names (current_scope g2) ''dense_2'') \<inter> set (map v_name (global_variables g2)) = {}"
    unfolding p2 n2 using F D by auto
  from dense_part_success [OF s3 f3]
  obtain t4 g4 where b4: "dense_part K self g2 t3 tr = Inr (t4, g4)"
    and s4: "get_shape t4 = [n, Some 5000]"
    by blast
  note a4 = dense_part_Inr(2) [OF b4]
  have p4: "current_scope g4 = p" using adds_variables_scope [OF a4] p2 by simp
  have n4: "map v_name (global_variables g4) =
      map v_name (global_variables g0) @ layer_names p ''cnn_1'' @ layer_names p ''cnn_2'' @
      layer_names p ''dense_1'' @ layer_names p ''dense_2''"
    using adds_variables_names [OF a4] p2 n2 by simp
  have f5: "set (layer_names (current_scope g4) ''output'') \<inter> set (map v_name (global_variables g4)) = {}"
    unfolding p4 n4 using F D by auto
  from slim_fully_connected_success [OF s4 f5]
  obtain t5 g5 where b5: "linear_output_layer K self g4 t4 = Inr (t5, g5)"
    and s5: "get_shape t5 = [n, Some (num_classes self)]"
    unfolding linear_output_layer_def by blast
  from b1 b2 s2 b3 s3 b4 b5 s5 show ?thesis by blast
qed

lemma shape_law:
  assumes fresh: "set (layer_variable_names (scope_join (current_scope g) ''piczak'')) \<inter>
                  set (map v_name (global_variables g)) = {}"
    and x: "get_shape x = [n, h, w, Some ci]"
    and hs: "valid_out_dim h 57 1 = Inr h1" "valid_out_dim h1 4 1 = Inr h2"
            "valid_out_dim h2 1 1 = Inr h3" "valid_out_dim h3 1 1 = Inr (Some H)"
    and ws: "valid_out_dim w 6 1 = Inr w1" "valid_out_dim w1 3 3 = Inr w2"
            "valid_out_dim w2 3 1 = Inr w3" "valid_out_dim w3 3 3 = Inr (Some W)"
  shows "built_shape (flattened K self g x tr) = Inr [n, Some (W * (H * 80))]"
    and "built_shape (build_predict_op K self g x tr) = Inr [n, Some (num_classes self)]"
proof -
  define g0 where "g0 = g\<lparr>current_scope := scope_join (current_scope g) ''piczak''\<rparr>"
  have p: "current_scope g0 = scope_join (current_scope g) ''piczak''"
    and f: "set (layer_variable_names (scope_join (current_scope g) ''piczak'')) \<inter>
            set (map v_name (global_variables g0)) = {}"
    using fresh by (simp_all add: g0_def)
  from pipeline_success [OF p f x hs ws, of K self tr]
  obtain t1 g1 t2 g2 t3 t4 g4 t5 g5 where
    "first_convolutional_block K self g0 x tr = Inr (t1, g1)"
    "second_convolutional_block K self g1 t1 = Inr (t2, g2)"
    "reshaping K t2 = Inr t3"
    "get_shape t3 = [n, Some (W * (H * 80))]"
    "dense_part K self g2 t3 tr = Inr (t4, g4)"
    "linear_output_layer K self g4 t4 = Inr (t5, g5)"
    "get_shape t5 = [n, Some (num_classes self)]"
    by blast
  then show "built_shape (flattened K self g x tr) = Inr [n, Some (W * (H * 80))]"
    and "built_shape (build_predict_op K self g x tr) = Inr [n, Some (num_classes self)]"
    by (simp_all add: flattened_def build_predict_op_def variable_scope_def built_shape_def
        g0_def [symmetric])
qed

text \<open>
  C1, as amended. On a graph where the names of the five layers are free, for an instance
  with 50 classes and any batch dimension \<open>n\<close> (known or not): an input of shape
  \<open>(n, 60, 41, 1)\<close> gives a flattened tensor of shape \<open>(n, 240)\<close> and logits of shape
  \<open>(n, 50)\<close>; the 800 features of the comment at line 91 are those of an input of shape
  \<open>(n, 60, 101, 1)\<close>.
\<close>

theorem build_predict_op_shape_law:
  assumes "num_classes self = 50"
    and "set (layer_variable_names (scope_join (current_scope g) ''piczak'')) \<inter>
         set (map v_name (global_variables g)) = {}"
  shows "(get_shape input_tensor = [n, Some 60, Some 41, Some 1] \<longrightarrow>
            built_shape (flattened K self g input_tensor is_training) = Inr [n, Some 240] \<and>
            built_shape (build_predict_op K self g input_tensor is_training) = Inr [n, Some 50]) \<and>
         (get_shape input_tensor = [n, Some 60, Some 101, Some 1] \<longrightarrow>
            built_shape (flattened K self g input_tensor is_training) = Inr [n, Some 800] \<and>
            built_shape (build_predict_op K self g input_tensor is_training) = Inr [n, Some 50])"
proof (intro conjI impI)
  assume x: "get_shape input_tensor = [n, Some 60, Some 41, Some 1]"
  have hs: "valid_out_dim (Some 60) 57 1 = Inr (Some 4)" "valid_out_dim (Some 4) 4 1 = Inr (Some 1)"
    "valid_out_dim (Some 1) 1 1 = Inr (Some 1)" "valid_out_dim (Some 1) 1 1 = Inr (Some 1)"
    and ws: "valid_out_dim (Some 41) 6 1 = Inr (Some 36)" "valid_out_dim (Some 36) 3 3 = Inr (Some 12)"
    "valid_out_dim (Some 12) 3 1 = Inr (Some 10)" "valid_out_dim (Some 10) 3 3 = Inr (Some 3)"
    by (simp_all add: valid_out_dim_def)
  from shape_law [OF assms(2) x hs ws, of K self is_training] assms(1)
  show "built_shape (flattened K self g input_tensor is_training) = Inr [n, Some 240]"
    and "built_shape (build_predict_op K self g input_tensor is_training) = Inr [n, Some 50]"
    by simp_all
next
  assume x: "get_shape input_tensor = [n, Some 60, Some 101, Some 1]"
  have hs: "valid_out_dim (Some 60) 57 1 = Inr (Some 4)" "valid_out_dim (Some 4) 4 1 = Inr (Some 1)"
    "valid_out_dim (Some 1) 1 1 = Inr (Some 1)" "valid_out_dim (Some 1) 1 1 = Inr (Some 1)"
    and ws: "valid_out_dim (Some 101) 6 1 = Inr (Some 96)" "valid_out_dim (Some 96) 3 3 = Inr (Some 32)"
    "valid_out_dim (Some 32) 3 1 = Inr (Some 30)" "valid_out_dim (Some 30) 3 3 = Inr (Some 10)"
    by (simp_all add: valid_out_dim_def)
  from shape_law [OF assms(2) x hs ws, of K self is_training] assms(1)
  show "built_shape (flattened K self g input_tensor is_training) = Inr [n, Some 800]"
    and "built_shape (build_predict_op K self g input_tensor is_training) = Inr [n, Some 50]"
    by simp_all
qed

theorem build_predict_op_shape_law_witness:
  "built_shape (flattened int_kernels default_piczak empty_graph
      (placeholder ''x'' [Some 7, Some 60, Some 41, Some 1]) True) = Inr [Some 7, Some 240] \<and>
   built_shape (build_predict_op int_kernels default_piczak empty_graph
      (placeholder ''x'' [Some 7, Some 60, Some 41, Some 1]) True) = Inr [Some 7, Some 50] \<and>
   built_shape (flattened int_kernels default_piczak empty_graph
      (placeholder ''x'' [Some 7, Some 60, Some 101, Some 1]) True) = Inr [Some 7, Some 800] \<and>
   built_shape (build_predict_op int_kernels default_piczak empty_graph
      (placeholder ''x'' [Some 7, Some 60, Some 101, Some 1]) True) = Inr [Some 7, Some 50]"
  using build_predict_op_shape_law [where self = default_piczak and g = empty_graph
      and input_tensor = "placeholder ''x'' [Some 7, Some 60, Some 41, Some 1]" and n = "Some 7"
      and K = int_kernels and is_training = True]
    build_predict_op_shape_law [where self = default_piczak and g = empty_graph
      and input_tensor = "placeholder ''x'' [Some 7, Some 60, Some 101, Some 1]" and n = "Some 7"
      and K = int_kernels and is_training = True]
  by (simp add: default_piczak_def init_piczak_def empty_graph_def placeholder_def)

theorem flatten_800_counterexample:
  "built_shape (flattened int_kernels default_piczak empty_graph
      (placeholder ''x'' [Some 1, Some 60, Some 41, Some 1]) False) = Inr [Some 1, Some 240] \<and>
   built_shape (flattened int_kernels default_piczak empty_graph
      (placeholder ''x'' [Some 1, Some 60, Some 41, Some 1]) False) \<noteq> Inr [Some 1, Some 800]"
  by (simp add: built_shape_def pipeline_defs empty_graph_def placeholder_def default_piczak_def
      init_piczak_def)

text \<open>
  C4. A tensor of shape \<open>(N, H, W, C)\<close> that leaves the second convolutional block is
  transposed to \<open>(N, W, H, C)\<close>, reshaped to \<open>(N, W, H * C)\<close> and then to
  \<open>(N, W * H * C)\<close>; the value of the result is computed from the value of the input
  alone, by the transpose and the two reshape kernels, and no variable is read or created.
\<close>

theorem reshaping_shapes:
  assumes "second_convolutional_block K self g x = Inr (predict_op, g')"
    and "get_shape predict_op = [N, Some H, Some W, Some C]"
  shows "\<exists>t1 t2 t3.
           tf_transpose K predict_op [0, 2, 1, 3] = Inr t1 \<and>
           get_shape t1 = [N, Some W, Some H, Some C] \<and>
           tf_reshape K t1 [- 1, int W, int (H * C)] = Inr t2 \<and>
           get_shape t2 = [N, Some W, Some (H * C)] \<and>
           tf_reshape K t2 [- 1, int W * int (H * C)] = Inr t3 \<and>
           get_shape t3 = [N, Some (W * H * C)] \<and>
           reshaping K predict_op = Inr t3 \<and>
           run t3 = (\<lambda>e. bind_err (run predict_op e) (\<lambda>v.
                      Inr (k_reshape K [- 1, int W * int (H * C)]
                            (k_reshape K [- 1, int W, int (H * C)]
                              (k_transpose K [0, 2, 1, 3] v)))))"
proof -
  from second_convolutional_block_Inr(1) [OF assms(1)] assms(2)
  obtain h1 w1 where "valid_out_dim h1 1 1 = Inr (Some H)" "valid_out_dim w1 3 3 = Inr (Some W)"
    "C = 80"
    by (elim exE conjE) simp
  then have "0 < H" "0 < W" "0 < C"
    by (simp_all add: valid_out_dim_pos)
  from reshaping_success [OF assms(2) this, of K] show ?thesis
    by (simp add: mult.assoc del: of_nat_mult)
qed

theorem reshaping_shapes_witness:
  "\<exists>p g' t1 t2 t3.
     second_convolutional_block int_kernels default_piczak empty_graph
       (placeholder ''x'' [Some 2, Some 1, Some 12, Some 80]) = Inr (p, g') \<and>
     get_shape p = [Some 2, Some 1, Some 3, Some 80] \<and>
     tf_transpose int_kernels p [0, 2, 1, 3] = Inr t1 \<and>
     get_shape t1 = [Some 2, Some 3, Some 1, Some 80] \<and>
     tf_reshape int_kernels t1 [- 1, 3, 80] = Inr t2 \<and>
     get_shape t2 = [Some 2, Some 3, Some 80] \<and>
     tf_reshape int_kernels t2 [- 1, 240] = Inr t3 \<and>
     get_shape t3 = [Some 2, Some 240] \<and>
     reshaping int_kernels p = Inr t3"
proof -
  have "\<exists>p g'. second_convolutional_block int_kernels default_piczak empty_graph
       (placeholder ''x'' [Some 2, Some 1, Some 12, Some 80]) = Inr (p, g') \<and>
       get_shape p = [Some 2, Some 1, Some 3, Some 80]"
  proof (rule second_convolutional_block_success)
    show "get_shape (placeholder ''x'' [Some 2, Some 1, Some 12, Some 80] :: int tensor) =
          [Some 2, Some 1, Some 12, Some 80]"
      by (simp add: placeholder_def)
    show "valid_out_dim (Some 1) 1 1 = Inr (Some 1)" "valid_out_dim (Some 12) 3 1 = Inr (Some 10)"
      "valid_out_dim (Some 1) 1 1 = Inr (Some 1)" "valid_out_dim (Some 10) 3 3 = Inr (Some 3)"
      by (simp_all add: valid_out_dim_def)
    show "set (layer_names (current_scope (empty_graph :: int graph)) ''cnn_2'') \<inter>
          set (map v_name (global_variables (empty_graph :: int graph))) = {}"
      by (simp add: empty_graph_def)
  qed
  then obtain p g' where b: "second_convolutional_block int_kernels default_piczak empty_graph
       (placeholder ''x'' [Some 2, Some 1, Some 12, Some 80]) = Inr (p, g')"
    and s: "get_shape p = [Some 2, Some 1, Some 3, Some 80]"
    by blast
  from reshaping_shapes [OF b s] b s show ?thesis
    by (simp del: of_nat_mult) blast
qed

text \<open>The parameter store.\<close>

lemma re_match_append: "re_match pat s \<Longrightarrow> re_match pat (s @ t)"
  by (auto simp add: re_match_def) (metis take_all_iff linorder_le_cases)

lemma saver_entries_initialised:
  "\<forall>v\<in>set vs. sess (v_name v) \<noteq> None \<Longrightarrow>
   saver_entries vs sess = Inr (map (\<lambda>v. (v_name v, v_shape v, the (sess (v_name v)))) vs)"
  by (induction vs) auto

lemma map_of_checkpoint:
  assumes "distinct (map v_name vs)" and "v \<in> set vs"
  shows "map_of (map (\<lambda>v. (v_name v, v_shape v, f (v_name v))) vs) (v_name v) =
         Some (v_shape v, f (v_name v))"
proof (rule map_of_is_SomeI)
  show "distinct (map fst (map (\<lambda>v. (v_name v, v_shape v, f (v_name v))) vs))"
    using assms(1) by (simp add: comp_def)
  show "(v_name v, v_shape v, f (v_name v)) \<in> set (map (\<lambda>v. (v_name v, v_shape v, f (v_name v))) vs)"
    using assms(2) by auto
qed

lemma restore_all_checkpoint:
  assumes "distinct (map v_name all)" and "set vs \<subseteq> set all"
  shows "restore_all vs (map (\<lambda>v. (v_name v, v_shape v, f (v_name v))) all) s =
         Inr (\<lambda>n. if n \<in> v_name ` set vs then Some (f n) else s n)"
  using assms(2)
proof (induction vs arbitrary: s)
  case Nil
  then show ?case by simp
next
  case (Cons v vs)
  then have v: "v \<in> set all" and vs: "set vs \<subseteq> set all" by simp_all
  have eq: "(\<lambda>n. if n \<in> v_name ` set vs then Some (f n) else (s(v_name v \<mapsto> f (v_name v))) n) =
        (\<lambda>n. if n \<in> v_name ` set (v # vs) then Some (f n) else s n)"
    by (rule ext) auto
  have "restore_all (v # vs) (map (\<lambda>v. (v_name v, v_shape v, f (v_name v))) all) s =
        restore_all vs (map (\<lambda>v. (v_name v, v_shape v, f (v_name v))) all)
          (s(v_name v \<mapsto> f (v_name v)))"
    using map_of_checkpoint [OF assms(1) v, of f] by simp
  also have "\<dots> = Inr (\<lambda>n. if n \<in> v_name ` set vs then Some (f n)
                         else (s(v_name v \<mapsto> f (v_name v))) n)"
    by (rule Cons.IH [OF vs])
  also have "\<dots> = Inr (\<lambda>n. if n \<in> v_name ` set (v # vs) then Some (f n) else s n)"
    by (simp only: eq)
  finally show ?case .
qed

lemma names_of_collection:
  "map v_name (tf_get_collection g pat) = filter (re_match pat) (map v_name (global_variables g))"
  by (simp add: tf_get_collection_def filter_map comp_def)

lemma save_initialised:
  assumes "tf_get_collection g ''model'' \<noteq> []"
    and "\<forall>v\<in>set (tf_get_collection g ''model''). sess (v_name v) \<noteq> None"
  shows "save self g path sess fs =
         Inr (fs(path \<mapsto> map (\<lambda>v. (v_name v, v_shape v, the (sess (v_name v))))
                            (tf_get_collection g ''model'')))"
  using assms
  by (simp add: save_def tf_train_Saver_def saver_save_def saver_entries_initialised Let_def)

lemma load_piczak_checkpoint:
  assumes "tf_get_collection g ''model'' \<noteq> []"
    and "distinct (map v_name (global_variables g))"
    and "fs path = Some (map (\<lambda>v. (v_name v, v_shape v, f (v_name v))) (tf_get_collection g ''model''))"
  shows "load_piczak self g path s fs =
         Inr (\<lambda>n. if n \<in> v_name ` set (tf_get_collection g ''model'') then Some (f n) else s n)"
proof -
  have "distinct (map v_name (tf_get_collection g ''model''))"
    using assms(2) by (simp add: tf_get_collection_def distinct_map_filter)
  from restore_all_checkpoint [OF this subset_refl, of f s] assms(1,3)
  show ?thesis
    by (simp add: load_piczak_def tf_train_Saver_def saver_restore_def Let_def)
qed

lemma model_scope_layer_names:
  assumes "re_match ''model'' s"
  shows "list_all (re_match ''model'') (layer_variable_names (scope_join s ''piczak''))"
proof -
  from assms have "s \<noteq> []" by (auto simp add: re_match_def)
  then have "layer_variable_names (scope_join s ''piczak'') =
      map (\<lambda>t. s @ t) [''/piczak/cnn_1/weights'', ''/piczak/cnn_1/biases'',
        ''/piczak/cnn_2/weights'', ''/piczak/cnn_2/biases'',
        ''/piczak/dense_1/weights'', ''/piczak/dense_1/biases'',
        ''/piczak/dense_2/weights'', ''/piczak/dense_2/biases'',
        ''/piczak/output/weights'', ''/piczak/output/biases'']"
    by (simp add: layer_variable_names_def layer_names_def scope_join_def)
  then show ?thesis
    using assms by (simp add: re_match_append)
qed

text \<open>After a build inside a scope that begins with \<open>model\<close> the collection holds the ten layer variables.\<close>

lemma built_collection:
  assumes "build_predict_op K self g x tr = Inr (t, g')"
    and "re_match ''model'' (current_scope g)"
  shows "map v_name (tf_get_collection g' ''model'') =
         map v_name (tf_get_collection g ''model'') @
         layer_variable_names (scope_join (current_scope g) ''piczak'')"
proof -
  have "filter (re_match ''model'') (layer_variable_names (scope_join (current_scope g) ''piczak'')) =
        layer_variable_names (scope_join (current_scope g) ''piczak'')"
    using model_scope_layer_names [OF assms(2)] by (simp add: list_all_iff)
  then show ?thesis
    by (simp add: names_of_collection adds_variables_names [OF build_predict_op_Inr(1) [OF assms(1)]])
qed

lemma layer_variable_names_nonempty: "layer_variable_names p \<noteq> []"
  by (simp add: layer_variable_names_def layer_names_def)

lemmas store_defs =
  save_def load_piczak_def tf_get_collection_def re_match_def tf_train_Saver_def
  saver_save_def saver_restore_def

text \<open>
  C2, as amended. \<open>save\<close> writes the global variables whose name begins with \<open>model\<close>.
  When the pipeline was built inside the scope \<open>model\<close>, on a graph that held no other
  variable of such a name, and its variables have values, the checkpoint holds exactly the
  weights and biases of \<open>cnn_1\<close>, \<open>cnn_2\<close>, \<open>dense_1\<close>, \<open>dense_2\<close> and \<open>output\<close> under
  \<open>model/piczak\<close>, with their session values.
\<close>

theorem save_writes_layer_variables:
  assumes "build_predict_op K self g input_tensor is_training = Inr (predict_op, g')"
    and "current_scope g = ''model''"
    and "tf_get_collection g ''model'' = []"
    and "\<forall>n\<in>set (layer_variable_names ''model/piczak''). sess n \<noteq> None"
  shows "\<exists>ckpt. save self g' path sess fs = Inr (fs(path \<mapsto> ckpt)) \<and>
           map fst ckpt =
             [''model/piczak/cnn_1/weights'', ''model/piczak/cnn_1/biases'',
              ''model/piczak/cnn_2/weights'', ''model/piczak/cnn_2/biases'',
              ''model/piczak/dense_1/weights'', ''model/piczak/dense_1/biases'',
              ''model/piczak/dense_2/weights'', ''model/piczak/dense_2/biases'',
              ''model/piczak/output/weights'', ''model/piczak/output/biases''] \<and>
           map (\<lambda>e. Some (snd (snd e))) ckpt = map sess (map fst ckpt)"
proof -
  let ?vars = "tf_get_collection g' ''model''"
  let ?ckpt = "map (\<lambda>v. (v_name v, v_shape v, the (sess (v_name v)))) ?vars"
  have sc: "scope_join (current_scope g) ''piczak'' = ''model/piczak''"
    by (simp add: assms(2) scope_join_def)
  have "re_match ''model'' (current_scope g)"
    by (simp add: assms(2) re_match_def)
  from built_collection [OF assms(1) this]
  have names: "map v_name ?vars = layer_variable_names ''model/piczak''"
    by (simp add: assms(3) sc)
  then have ne: "?vars \<noteq> []"
    using layer_variable_names_nonempty [of "''model/piczak''"] by auto
  have init: "\<forall>v\<in>set ?vars. sess (v_name v) \<noteq> None"
  proof
    fix v assume "v \<in> set ?vars"
    then have "v_name v \<in> set (map v_name ?vars)" by simp
    with names assms(4) show "sess (v_name v) \<noteq> None" by simp
  qed
  have "save self g' path sess fs = Inr (fs(path \<mapsto> ?ckpt))"
    by (rule save_initialised [OF ne init])
  moreover have "map fst ?ckpt = layer_variable_names ''model/piczak''"
    using names by (simp add: comp_def)
  moreover have "map (\<lambda>e. Some (snd (snd e))) ?ckpt = map sess (map fst ?ckpt)"
    using init by (simp add: comp_def)
  ultimately show ?thesis
    by (intro exI [of _ ?ckpt]) (simp add: layer_variable_names_def layer_names_def scope_join_def)
qed

theorem save_writes_layer_variables_witness:
  "\<exists>t g' ckpt.
     build_predict_op int_kernels default_piczak model_scope_graph
       (placeholder ''x'' [Some 1, Some 60, Some 41, Some 1]) True = Inr (t, g') \<and>
     save default_piczak g' ''ckpt'' trained_session Map.empty = Inr [''ckpt'' \<mapsto> ckpt] \<and>
     map fst ckpt =
       [''model/piczak/cnn_1/weights'', ''model/piczak/cnn_1/biases'',
        ''model/piczak/cnn_2/weights'', ''model/piczak/cnn_2/biases'',
        ''model/piczak/dense_1/weights'', ''model/piczak/dense_1/biases'',
        ''model/piczak/dense_2/weights'', ''model/piczak/dense_2/biases'',
        ''model/piczak/output/weights'', ''model/piczak/output/biases'']"
proof -
  obtain t g' where b: "build_predict_op int_kernels default_piczak model_scope_graph
       (placeholder ''x'' [Some 1, Some 60, Some 41, Some 1]) True = Inr (t, g')"
    by (simp add: pipeline_defs model_scope_graph_def placeholder_def default_piczak_def
        init_piczak_def)
  from save_writes_layer_variables [OF b, where sess = trained_session
      and path = "''ckpt''" and fs = Map.empty]
  obtain ckpt where s: "save default_piczak g' ''ckpt'' trained_session Map.empty = Inr [''ckpt'' \<mapsto> ckpt]"
    and n: "map fst ckpt =
       [''model/piczak/cnn_1/weights'', ''model/piczak/cnn_1/biases'',
        ''model/piczak/cnn_2/weights'', ''model/piczak/cnn_2/biases'',
        ''model/piczak/dense_1/weights'', ''model/piczak/dense_1/biases'',
        ''model/piczak/dense_2/weights'', ''model/piczak/dense_2/biases'',
        ''model/piczak/output/weights'', ''model/piczak/output/biases'']"
    by (auto simp add: model_scope_graph_def tf_get_collection_def trained_session_def)
  show ?thesis
    by (rule exI [of _ t], rule exI [of _ g'], rule exI [of _ ckpt]) (intro conjI b s n)
qed

theorem save_scope_counterexample:
  "build_then_save int_kernels default_piczak empty_graph
     (placeholder ''x'' [Some 1, Some 60, Some 41, Some 1]) False ''ckpt'' trained_session Map.empty =
     Inl NoVariablesToSave \<and>
   saved_names (build_then_save int_kernels default_piczak graph_with_step
     (placeholder ''x'' [Some 1, Some 60, Some 41, Some 1]) False ''ckpt'' trained_session Map.empty)
     ''ckpt'' =
     Inr [''model_step'',
          ''model/piczak/cnn_1/weights'', ''model/piczak/cnn_1/biases'',
          ''model/piczak/cnn_2/weights'', ''model/piczak/cnn_2/biases'',
          ''model/piczak/dense_1/weights'', ''model/piczak/dense_1/biases'',
          ''model/piczak/dense_2/weights'', ''model/piczak/dense_2/biases'',
          ''model/piczak/output/weights'', ''model/piczak/output/biases'']"
  by (simp add: build_then_save_def saved_names_def pipeline_defs store_defs empty_graph_def
      graph_with_step_def placeholder_def default_piczak_def init_piczak_def trained_session_def)

text \<open>
  C3, as amended. When the pipeline was built with \<open>is_training = False\<close> inside a scope
  whose name begins with \<open>model\<close>, and every variable of such a name has a value, \<open>save\<close>
  followed by \<open>load_piczak\<close> into any other session of the same graph succeeds, and a run
  on the restored session returns the output of a run on the saved one for the same input.
\<close>

theorem save_then_load_reproduces_output:
  assumes "build_predict_op K self g input_tensor False = Inr (predict_op, g')"
    and "re_match ''model'' (current_scope g)"
    and "distinct (map v_name (global_variables g))"
    and "\<forall>v\<in>set (tf_get_collection g' ''model''). sess (v_name v) \<noteq> None"
  shows "\<exists>fs' sess'.
           save self g' path sess fs = Inr fs' \<and>
           load_piczak self g' path fresh fs' = Inr sess' \<and>
           (\<forall>e1 e2. variables e1 = sess \<and> variables e2 = sess' \<and>
                    run input_tensor e1 = run input_tensor e2 \<longrightarrow>
                    run predict_op e1 = run predict_op e2)"
proof -
  let ?vars = "tf_get_collection g' ''model''"
  let ?L = "layer_variable_names (scope_join (current_scope g) ''piczak'')"
  let ?ckpt = "map (\<lambda>v. (v_name v, v_shape v, the (sess (v_name v)))) ?vars"
  let ?sess' = "\<lambda>n. if n \<in> v_name ` set ?vars then Some (the (sess n)) else fresh n"
  note names = built_collection [OF assms(1,2)]
  have ne: "?vars \<noteq> []"
    using names layer_variable_names_nonempty [of "scope_join (current_scope g) ''piczak''"]
    by auto
  have sub: "set ?L \<subseteq> v_name ` set ?vars"
  proof -
    have "set ?L \<subseteq> set (map v_name ?vars)" unfolding names by simp
    then show ?thesis by simp
  qed
  have sv: "save self g' path sess fs = Inr (fs(path \<mapsto> ?ckpt))"
    by (rule save_initialised [OF ne assms(4)])
  have "distinct (map v_name (global_variables g'))"
    by (rule adds_variables_distinct [OF build_predict_op_Inr(1) [OF assms(1)] assms(3)])
  then have ld: "load_piczak self g' path fresh (fs(path \<mapsto> ?ckpt)) = Inr ?sess'"
    by (intro load_piczak_checkpoint [OF ne]) simp_all
  have same: "?sess' n = sess n" if "n \<in> set ?L" for n
  proof -
    from that sub obtain v where "v \<in> set ?vars" "n = v_name v" by auto
    with assms(4) show ?thesis by auto
  qed
  have "run predict_op e1 = run predict_op e2"
    if "variables e1 = sess \<and> variables e2 = ?sess' \<and> run input_tensor e1 = run input_tensor e2"
    for e1 e2
  proof (rule build_predict_op_Inr(2) [OF assms(1)])
    from that show "run input_tensor e1 = run input_tensor e2" by simp
    from that same show "agree_on ?L e1 e2"
      by (simp add: agree_on_def list_all_iff)
    show "False \<longrightarrow> random_uniform e1 = random_uniform e2" by simp
  qed
  with sv ld show ?thesis by blast
qed

theorem save_then_load_reproduces_output_witness:
  "\<exists>t g' fs' sess'.
     build_predict_op int_kernels default_piczak model_scope_graph
       (placeholder ''x'' [Some 1, Some 60, Some 41, Some 1]) False = Inr (t, g') \<and>
     save default_piczak g' ''ckpt'' trained_session Map.empty = Inr fs' \<and>
     load_piczak default_piczak g' ''ckpt'' fresh_session fs' = Inr sess' \<and>
     run t \<lparr>variables = trained_session, feed_dict = [''x'' \<mapsto> 5], random_uniform = (\<lambda>n. 0)\<rparr> =
     run t \<lparr>variables = sess', feed_dict = [''x'' \<mapsto> 5], random_uniform = (\<lambda>n. 1)\<rparr>"
proof -
  obtain t g' where b: "build_predict_op int_kernels default_piczak model_scope_graph
       (placeholder ''x'' [Some 1, Some 60, Some 41, Some 1]) False = Inr (t, g')"
    by (simp add: pipeline_defs model_scope_graph_def placeholder_def default_piczak_def
        init_piczak_def)
  have "\<exists>fs' sess'.
           save default_piczak g' ''ckpt'' trained_session Map.empty = Inr fs' \<and>
           load_piczak default_piczak g' ''ckpt'' fresh_session fs' = Inr sess' \<and>
           (\<forall>e1 e2. variables e1 = trained_session \<and> variables e2 = sess' \<and>
                    run (placeholder ''x'' [Some 1, Some 60, Some 41, Some 1]) e1 =
                    run (placeholder ''x'' [Some 1, Some 60, Some 41, Some 1]) e2 \<longrightarrow>
                    run t e1 = run t e2)"
    by (rule save_then_load_reproduces_output [OF b])
       (simp_all add: model_scope_graph_def re_match_def trained_session_def)
  then obtain fs' sess' where s: "save default_piczak g' ''ckpt'' trained_session Map.empty = Inr fs'"
    and l: "load_piczak default_piczak g' ''ckpt'' fresh_session fs' = Inr sess'"
    and r: "\<forall>e1 e2. variables e1 = trained_session \<and> variables e2 = sess' \<and>
                    run (placeholder ''x'' [Some 1, Some 60, Some 41, Some 1]) e1 =
                    run (placeholder ''x'' [Some 1, Some 60, Some 41, Some 1]) e2 \<longrightarrow>
                    run t e1 = run t e2"
    by blast
  have e: "run t \<lparr>variables = trained_session, feed_dict = [''x'' \<mapsto> 5], random_uniform = (\<lambda>n. 0)\<rparr> =
     run t \<lparr>variables = sess', feed_dict = [''x'' \<mapsto> 5], random_uniform = (\<lambda>n. 1)\<rparr>"
    by (rule r [rule_format]) (simp add: placeholder_def)
  show ?thesis
    by (rule exI [of _ t], rule exI [of _ g'], rule exI [of _ fs'], rule exI [of _ sess'])
       (intro conjI b s l e)
qed

theorem save_then_load_counterexample:
  "build_save_load int_kernels default_piczak empty_graph
     (placeholder ''x'' [Some 4, Some 60, Some 41, Some 1]) ''ckpt'' trained_session fresh_session
     Map.empty = Inl NoVariablesToSave"
  by (simp add: build_save_load_def pipeline_defs store_defs empty_graph_def placeholder_def
      default_piczak_def init_piczak_def trained_session_def)

end
